theory Spec2Isabelle
  imports Main
begin

section \<open>The /a2ui request-dispatch middleware\<close>

text \<open>
  A shallow embedding of the Vite plugin \<open>custom-ai-handler\<close>: the function \<open>plugin\<close>, the
  middleware it mounts on \<open>/a2ui\<close>, and \<open>convertPartsToOpenAIContent\<close>.

  The module keeps two variables, \<open>catalog\<close> and \<open>client\<close>; they are the fields of
  \<open>server_state\<close>, passed in and returned. What lies outside the module is a parameter of
  the model (record \<open>externals\<close>): \<open>JSON.parse\<close>, the guard \<open>isObject\<close>, the two prompt
  builders of \<open>./prompts\<close> and the provider behind \<open>client.chat.completions.create\<close>.
  \<open>process.env\<close> is the record \<open>env\<close>. Requests are handled one after the other: the
  interleaving of two requests at an \<open>await\<close> is not modelled.
\<close>

subsection \<open>JavaScript values\<close>

text \<open>
  The values \<open>JSON.parse\<close> can return, and \<open>undefined\<close> for an absent property. Numbers
  are kept as integers: the handler only tests them for truthiness. Strings are lists of
  8-bit characters.
\<close>

datatype jsval =
    Undefined
  | Null
  | Bool bool
  | Num int
  | Str string
  | Arr "jsval list"
  | Obj "(string \<times> jsval) list"

datatype exn =
    SyntaxError string
  | TypeError string
  | Error string
  | Rejection string

text \<open>
  \<open>String(err)\<close>, as the template literal \<open>`${err}`\<close> computes it: for an error object
  its name, then \<open>": "\<close> and the message when there is one. \<open>Rejection\<close> is whatever the
  provider layer rejected with, kept as the text \<open>String\<close> gives for it.
\<close>

definition error_toString :: "string \<Rightarrow> string \<Rightarrow> string" where
  "error_toString nm msg = (if msg = [] then nm else nm @ '': '' @ msg)"

fun String_of_exn :: "exn \<Rightarrow> string" where
  "String_of_exn (SyntaxError msg) = error_toString ''SyntaxError'' msg"
| "String_of_exn (TypeError msg) = error_toString ''TypeError'' msg"
| "String_of_exn (Error msg) = error_toString ''Error'' msg"
| "String_of_exn (Rejection txt) = txt"

text \<open>Truthiness, as \<open>if (v)\<close>, \<open>!v\<close>, \<open>||\<close> and \<open>&&\<close> test it.\<close>

fun truthy :: "jsval \<Rightarrow> bool" where
  "truthy Undefined = False"
| "truthy Null = False"
| "truthy (Bool b) = b"
| "truthy (Num n) = (n \<noteq> 0)"
| "truthy (Str s) = (s \<noteq> [])"
| "truthy (Arr xs) = True"
| "truthy (Obj kvs) = True"

text \<open>
  Reading a property, \<open>v.k\<close>. On \<open>null\<close> and \<open>undefined\<close> it throws a TypeError (the
  message is the engine's). The handler reads only the keys \<open>clientUiCapabilities\<close>,
  \<open>userAction\<close>, \<open>request\<close>, \<open>dynamicCatalog\<close>, \<open>imageData\<close> and \<open>instructions\<close>, which no
  primitive, array or prototype has: for them only an object can give a value.
\<close>

fun get_prop :: "jsval \<Rightarrow> string \<Rightarrow> exn + jsval" where
  "get_prop Undefined k =
     Inl (TypeError (''Cannot read properties of undefined (reading '' @ [CHR 0x27] @ k @ [CHR 0x27] @ '')''))"
| "get_prop Null k =
     Inl (TypeError (''Cannot read properties of null (reading '' @ [CHR 0x27] @ k @ [CHR 0x27] @ '')''))"
| "get_prop (Obj kvs) k = Inr (case map_of kvs k of None \<Rightarrow> Undefined | Some v \<Rightarrow> v)"
| "get_prop v k = Inr Undefined"

fun digit_char :: "nat \<Rightarrow> char" where
  "digit_char n = (''0123456789abcdef'' ! (n mod 16))"

fun decimal :: "nat \<Rightarrow> string" where
  "decimal n = (if n < 10 then [digit_char n] else decimal (n div 10) @ [digit_char (n mod 10)])"

definition Number_toString :: "int \<Rightarrow> string" where
  "Number_toString i = (if i < 0 then ''-'' @ decimal (nat (- i)) else decimal (nat i))"

text \<open>
  \<open>String(v)\<close> for a primitive value, as the engine's messages show it. Only primitives
  are passed to it.
\<close>

fun String_of_primitive :: "jsval \<Rightarrow> string" where
  "String_of_primitive Undefined = ''undefined''"
| "String_of_primitive Null = ''null''"
| "String_of_primitive (Bool b) = (if b then ''true'' else ''false'')"
| "String_of_primitive (Num i) = Number_toString i"
| "String_of_primitive (Str s) = s"
| "String_of_primitive v = ''[object Object]''"

text \<open>
  The operator \<open>k in v\<close>. Its right operand must be an object (arrays are objects); on a
  primitive it throws a TypeError.
\<close>

fun has_property :: "string \<Rightarrow> jsval \<Rightarrow> exn + bool" where
  "has_property k (Obj kvs) = Inr (k \<in> fst ` set kvs)"
| "has_property k (Arr xs) = Inr False"
| "has_property k v =
     Inl (TypeError (''Cannot use '' @ [CHR 0x27] @ ''in'' @ [CHR 0x27] @ '' operator to search for ''
                      @ [CHR 0x27] @ k @ [CHR 0x27] @ '' in '' @ String_of_primitive v))"

subsection \<open>JSON.stringify\<close>

text \<open>
  QuoteJSONString: the quote and the backslash are escaped, the control characters below
  0x20 get their short escape or \<open>\u00XX\<close>.
\<close>

definition quote_char :: "char \<Rightarrow> string" where
  "quote_char c =
     (if c = CHR 0x08 then [CHR 0x5C, CHR ''b'']
      else if c = CHR 0x09 then [CHR 0x5C, CHR ''t'']
      else if c = CHR 0x0A then [CHR 0x5C, CHR ''n'']
      else if c = CHR 0x0C then [CHR 0x5C, CHR ''f'']
      else if c = CHR 0x0D then [CHR 0x5C, CHR ''r'']
      else if c = CHR 0x22 then [CHR 0x5C, CHR 0x22]
      else if c = CHR 0x5C then [CHR 0x5C, CHR 0x5C]
      else if (of_char c :: nat) < 32
        then [CHR 0x5C, CHR ''u'', CHR ''0'', CHR ''0'',
              digit_char ((of_char c :: nat) div 16), digit_char ((of_char c :: nat) mod 16)]
      else [c])"

definition QuoteJSONString :: "string \<Rightarrow> string" where
  "QuoteJSONString s = [CHR 0x22] @ concat (map quote_char s) @ [CHR 0x22]"

fun join_comma :: "string list \<Rightarrow> string" where
  "join_comma [] = []"
| "join_comma [x] = x"
| "join_comma (x # y # ys) = x @ '','' @ join_comma (y # ys)"

text \<open>
  \<open>JSON.stringify(v)\<close> without indentation; \<open>None\<close> is the result \<open>undefined\<close>. An
  \<open>undefined\<close> array element is written \<open>null\<close>, an \<open>undefined\<close> property is left out.
\<close>

fun JSON_stringify :: "jsval \<Rightarrow> string option"
  and stringify_elements :: "jsval list \<Rightarrow> string list"
  and stringify_properties :: "(string \<times> jsval) list \<Rightarrow> string list" where
  "JSON_stringify Undefined = None"
| "JSON_stringify Null = Some ''null''"
| "JSON_stringify (Bool b) = Some (if b then ''true'' else ''false'')"
| "JSON_stringify (Num i) = Some (Number_toString i)"
| "JSON_stringify (Str s) = Some (QuoteJSONString s)"
| "JSON_stringify (Arr xs) = Some (''['' @ join_comma (stringify_elements xs) @ '']'')"
| "JSON_stringify (Obj kvs) = Some (''{'' @ join_comma (stringify_properties kvs) @ ''}'')"
| "stringify_elements [] = []"
| "stringify_elements (x # xs) =
     (case JSON_stringify x of None \<Rightarrow> ''null'' | Some t \<Rightarrow> t) # stringify_elements xs"
| "stringify_properties [] = []"
| "stringify_properties ((k, v) # kvs) =
     (case JSON_stringify v of
        None \<Rightarrow> stringify_properties kvs
      | Some t \<Rightarrow> (QuoteJSONString k @ '':'' @ t) # stringify_properties kvs)"

subsection \<open>The environment and the provider client\<close>

record env =
  OPENAI_API_KEY :: "string option"
  GEMINI_API_KEY :: "string option"
  OPENAI_BASE_URL :: "string option"
  AI_MODEL :: "string option"

text \<open>
  A variable of \<open>process.env\<close> is \<open>undefined\<close> or a string, and the module tests it with
  \<open>||\<close>, \<open>&&\<close> and \<open>!\<close>: it counts as set when it is defined and not the empty string.
\<close>

fun is_set :: "string option \<Rightarrow> bool" where
  "is_set None = False"
| "is_set (Some s) = (s \<noteq> [])"

definition DEFAULT_OPENAI_MODEL :: string where
  "DEFAULT_OPENAI_MODEL = ''gpt-4o''"

definition DEFAULT_GEMINI_MODEL :: string where
  "DEFAULT_GEMINI_MODEL = ''gemini-2.5-flash''"

definition GOOGLE_OPENAI_ENDPOINT :: string where
  "GOOGLE_OPENAI_ENDPOINT = ''https://generativelanguage.googleapis.com/v1beta/openai/''"

record client_config =
  apiKey :: string
  baseURL :: "string option"

text \<open>The operator \<open>a || b\<close> on two such values.\<close>

definition or_else :: "string option \<Rightarrow> string option \<Rightarrow> string option" where
  "or_else a b = (if is_set a then a else b)"

text \<open>Lines 81 to 91: the arguments of \<open>new OpenAI({ apiKey: key, baseURL })\<close>.\<close>

definition new_client :: "env \<Rightarrow> client_config" where
  "new_client e =
     \<lparr> apiKey =
         (case or_else (or_else (OPENAI_API_KEY e) (GEMINI_API_KEY e)) (Some []) of
            Some key \<Rightarrow> key
          | None \<Rightarrow> []),
       baseURL =
         or_else (OPENAI_BASE_URL e)
           (if is_set (GEMINI_API_KEY e) \<and> \<not> is_set (OPENAI_API_KEY e)
            then Some GOOGLE_OPENAI_ENDPOINT
            else None) \<rparr>"

text \<open>Lines 98 to 102: the model name.\<close>

definition resolve_model :: "env \<Rightarrow> string" where
  "resolve_model e =
     (case or_else (AI_MODEL e)
             (Some (if is_set (GEMINI_API_KEY e) \<and> \<not> is_set (OPENAI_API_KEY e)
                    then DEFAULT_GEMINI_MODEL
                    else DEFAULT_OPENAI_MODEL)) of
        Some m \<Rightarrow> m
      | None \<Rightarrow> [])"

subsection \<open>Plugin construction\<close>

definition NO_API_KEY_MESSAGE :: string where
  "NO_API_KEY_MESSAGE =
     ''No API key found. Please set OPENAI_API_KEY in your .env file.'' @ [CHR 0x0A] @
     ''For vLLM or other OpenAI-compatible APIs also set OPENAI_BASE_URL.'' @ [CHR 0x0A] @
     ''Legacy: GEMINI_API_KEY is still accepted for backward compatibility.''"

text \<open>
  The object \<open>plugin()\<close> returns: its name, and the path its \<open>configureServer\<close> mounts the
  middleware on.
\<close>

record plugin_object =
  plugin_name :: string
  mount_path :: string

definition plugin :: "env \<Rightarrow> exn + plugin_object" where
  "plugin e =
     (let key = or_else (OPENAI_API_KEY e) (GEMINI_API_KEY e) in
      if \<not> is_set key then Inl (Error NO_API_KEY_MESSAGE)
      else Inr \<lparr> plugin_name = ''custom-ai-handler'', mount_path = ''/a2ui'' \<rparr>)"

subsection \<open>Content parts and chat completions\<close>

datatype content_part =
    Text string
  | InlineData string string

datatype openai_part =
    TextPart string
  | ImageUrlPart string

fun convertPart :: "content_part \<Rightarrow> openai_part" where
  "convertPart (InlineData mimeType dat) = ImageUrlPart (''data:'' @ mimeType @ '';base64,'' @ dat)"
| "convertPart (Text t) = TextPart t"

definition convertPartsToOpenAIContent :: "content_part list \<Rightarrow> openai_part list" where
  "convertPartsToOpenAIContent parts = map convertPart parts"

datatype chat_message =
    SystemMessage string
  | UserMessage "openai_part list"

record completion_params =
  model :: string
  messages :: "chat_message list"

text \<open>
  What the provider answers: a completion with its choices, each with an optional message
  whose content is a string or \<open>null\<close>; or the promise is rejected; or it never settles.
\<close>

record chat_choice =
  message_content :: "string option option"

record chat_completion =
  choices :: "chat_choice list"

datatype settled =
    Fulfilled chat_completion
  | Rejected exn
  | Pending

text \<open>\<open>response.choices[0]?.message?.content ?? ""\<close>\<close>

fun first_content :: "chat_completion \<Rightarrow> string" where
  "first_content r =
     (case choices r of
        [] \<Rightarrow> []
      | c # cs \<Rightarrow> (case message_content c of Some (Some txt) \<Rightarrow> txt | _ \<Rightarrow> []))"

definition join_lines :: "string list \<Rightarrow> string" where
  "join_lines ls = (case ls of [] \<Rightarrow> [] | l # rest \<Rightarrow> l @ concat (map (\<lambda>x. CHR 0x0A # x) rest))"

definition IMAGE_SYSTEM_PROMPT :: string where
  \<open>IMAGE_SYSTEM_PROMPT = join_lines
    [''You are working as part of an AI system, so no chit-chat and'',
     ''                        no explaining what you're doing and why. DO NOT start with'',
     ''                        "Okay", or "Alright" or any preambles. Just the output,'',
     ''                        please.'']\<close>

definition A2UI_SYSTEM_PROMPT :: string where
  \<open>A2UI_SYSTEM_PROMPT = join_lines
    [''Please return a valid array'',
     ''                        necessary to satisfy the user request. If no data is'',
     ''                        provided create some. If there are any URLs you must'',
     ''                        make them absolute and begin with a /.'',
     [],
     ''                        Nothing should ever be loaded from a remote source.'',
     [],
     ''                        You are working as part of an AI system, so no chit-chat and'',
     ''                        no explaining what you're doing and why. DO NOT start with'',
     ''                        "Okay", or "Alright" or any preambles. Just the output,'',
     ''                        please.'',
     [],
     ''                        ULTRA IMPORTANT: *Just* return the A2UI Protocol'',
     ''                        Message object, do not wrap it in markdown. Just the object'',
     ''                        please, nothing else!'']\<close>

subsection \<open>What the module takes from outside\<close>

text \<open>
  \<open>JSON.parse\<close> returns a value or throws; \<open>isObject\<close> is the guard of \<open>@a2ui/lit\<close>;
  the prompt builders return the \<open>parts\<close> of their prompt or throw;
  \<open>chat_completions_create\<close> is the provider, seen through the client.
\<close>

record externals =
  JSON_parse :: "string \<Rightarrow> exn + jsval"
  isObject :: "jsval \<Rightarrow> bool"
  createImageParsePrompt :: "jsval \<Rightarrow> content_part \<Rightarrow> exn + content_part list"
  createA2UIPrompt :: "jsval \<Rightarrow> string \<Rightarrow> jsval \<Rightarrow> exn + content_part list"
  chat_completions_create :: "client_config \<Rightarrow> completion_params \<Rightarrow> settled"

subsection \<open>The regular expression \<open>/data:(.*);/\<close>\<close>

text \<open>
  \<open>.\<close> matches any character but a line terminator, and \<open>*\<close> is greedy: at a
  position where \<open>data:\<close> stands, the group takes the rest of the line up to its last
  semicolon, and there is no match at that position when the rest of the line has none.
  \<open>exec\<close> tries the positions from the left.
\<close>

definition is_line_terminator :: "char \<Rightarrow> bool" where
  "is_line_terminator c = (c = CHR 0x0A \<or> c = CHR 0x0D)"

definition match_data_at_start :: "string \<Rightarrow> string option" where
  "match_data_at_start s =
     (if take 5 s = ''data:'' then
        (let line = takeWhile (\<lambda>c. \<not> is_line_terminator c) (drop 5 s) in
         if CHR '';'' \<in> set line
         then Some (rev (tl (dropWhile (\<lambda>c. c \<noteq> CHR '';'') (rev line))))
         else None)
      else None)"

text \<open>\<open>/data:(.*);/.exec(s)?.at(1)\<close>: the group of the leftmost match, \<open>None\<close> for \<open>undefined\<close>.\<close>

fun exec_data_group :: "string \<Rightarrow> string option" where
  "exec_data_group [] = None"
| "exec_data_group (c # cs) =
     (case match_data_at_start (c # cs) of
        Some g \<Rightarrow> Some g
      | None \<Rightarrow> exec_data_group cs)"

subsection \<open>Responses\<close>

record response =
  statusCode :: nat
  headers :: "(string \<times> string) list"
  body :: string

text \<open>
  What becomes of the request: a response is written, or none is and the request stays
  open, or (another method than POST) it is passed to \<open>next()\<close>.
\<close>

datatype reply =
    Responded response
  | Unanswered
  | Next

text \<open>\<open>res.end(JSON.stringify(v))\<close> after the status and the content type are set.\<close>

definition json_response :: "nat \<Rightarrow> jsval \<Rightarrow> response" where
  "json_response code v =
     \<lparr> statusCode = code,
       headers = [(''Content-Type'', ''application/json'')],
       body = (case JSON_stringify v of None \<Rightarrow> [] | Some t \<Rightarrow> t) \<rparr>"

definition model_response :: "string \<Rightarrow> response" where
  "model_response txt =
     json_response 200 (Obj [(''role'', Str ''model''), (''parts'', Arr [Obj [(''text'', Str txt)]])])"

definition error_response :: "string \<Rightarrow> response" where
  "error_response detail =
     json_response 400 (Obj [(''error'', Str (''Invalid message - '' @ detail))])"

subsection \<open>The request handler\<close>

record server_state =
  catalog :: jsval
  client :: "client_config option"

definition initial_state :: server_state where
  "initial_state = \<lparr> catalog = Null, client = None \<rparr>"

record request =
  req_method :: string
  chunks :: "string list"

text \<open>
  A stretch of the handler ends by going on with a value, by throwing, or by waiting for a
  promise that never settles. Each stretch also gives the provider calls it issued, in
  order.
\<close>

datatype 'a completion =
    Returns 'a
  | Throws exn
  | Hangs

type_synonym model_call = "client_config \<times> completion_params"

definition reading :: "jsval \<Rightarrow> string \<Rightarrow> (jsval \<Rightarrow> model_call list \<times> 'a completion)
    \<Rightarrow> model_call list \<times> 'a completion" where
  "reading v k cont = (case get_prop v k of Inl e \<Rightarrow> ([], Throws e) | Inr x \<Rightarrow> cont x)"

text \<open>One awaited call of \<open>client.chat.completions.create\<close>, and the text taken from it.\<close>

definition chat_call :: "externals \<Rightarrow> client_config \<Rightarrow> completion_params
    \<Rightarrow> model_call list \<times> string completion" where
  "chat_call ext cl params =
     ([(cl, params)],
      (case chat_completions_create ext cl params of
         Fulfilled r \<Rightarrow> Returns (first_content r)
       | Rejected e \<Rightarrow> Throws e
       | Pending \<Rightarrow> Hangs))"

text \<open>
  The arguments of the two calls: the model name, a fixed system message, and the parts
  of the prompt as the user message.
\<close>

definition image_params :: "string \<Rightarrow> content_part list \<Rightarrow> completion_params" where
  "image_params mdl parts =
     \<lparr> model = mdl,
       messages = [SystemMessage IMAGE_SYSTEM_PROMPT,
                   UserMessage (convertPartsToOpenAIContent parts)] \<rparr>"

definition a2ui_params :: "string \<Rightarrow> content_part list \<Rightarrow> completion_params" where
  "a2ui_params mdl parts =
     \<lparr> model = mdl,
       messages = [SystemMessage A2UI_SYSTEM_PROMPT,
                   UserMessage (convertPartsToOpenAIContent parts)] \<rparr>"

text \<open>Lines 159 to 200: the image-description pass, for a string that starts with \<open>data:\<close>.\<close>

definition describe_image :: "externals \<Rightarrow> client_config \<Rightarrow> string \<Rightarrow> jsval \<Rightarrow> string
    \<Rightarrow> model_call list \<times> string completion" where
  "describe_image ext cl mdl cat imageData =
     (case exec_data_group imageData of
        None \<Rightarrow> ([], Throws (Error ''Invalid inline data''))
      | Some mimeType \<Rightarrow>
          if mimeType = [] then ([], Throws (Error ''Invalid inline data''))
          else
            (let dat = drop (length (''data:'' @ mimeType @ '';base64,'')) imageData;
                 contentPart = InlineData mimeType dat
             in case createImageParsePrompt ext cat contentPart of
                  Inl e \<Rightarrow> ([], Throws e)
                | Inr parts \<Rightarrow>
                    chat_call ext cl (image_params mdl parts)))"

text \<open>
  Lines 154 to 201: \<open>imageDescription\<close>. The test is
  \<open>request.imageData && request.imageData.startsWith("data:")\<close>; a truthy value that
  is not a string has no \<open>startsWith\<close>.
\<close>

definition image_description :: "externals \<Rightarrow> client_config \<Rightarrow> string \<Rightarrow> jsval \<Rightarrow> jsval
    \<Rightarrow> model_call list \<times> string completion" where
  "image_description ext cl mdl cat imageData =
     (if \<not> truthy imageData then ([], Returns [])
      else case imageData of
             Str s \<Rightarrow>
               if take 5 s = ''data:'' then describe_image ext cl mdl cat s
               else ([], Returns [])
           | _ \<Rightarrow> ([], Throws (TypeError ''request.imageData.startsWith is not a function'')))"

text \<open>Lines 203 to 248: the UI-generation pass and the response.\<close>

definition generate_ui :: "externals \<Rightarrow> client_config \<Rightarrow> string \<Rightarrow> jsval \<Rightarrow> string \<Rightarrow> jsval
    \<Rightarrow> model_call list \<times> reply completion" where
  "generate_ui ext cl mdl cat imageDescription instructions =
     (case createA2UIPrompt ext cat imageDescription instructions of
        Inl e \<Rightarrow> ([], Throws e)
      | Inr parts \<Rightarrow>
          (case chat_call ext cl (a2ui_params mdl parts) of
             (cs, Returns responseText) \<Rightarrow> (cs, Returns (Responded (model_response responseText)))
           | (cs, Throws e) \<Rightarrow> (cs, Throws e)
           | (cs, Hangs) \<Rightarrow> (cs, Hangs)))"

text \<open>Lines 148 to 251, for a truthy \<open>payload.request\<close> and a truthy catalog.\<close>

definition generation :: "externals \<Rightarrow> client_config \<Rightarrow> string \<Rightarrow> jsval \<Rightarrow> jsval
    \<Rightarrow> model_call list \<times> reply completion" where
  "generation ext cl mdl cat req =
     (if isObject ext req then
        reading req ''imageData'' (\<lambda>imageData.
          case image_description ext cl mdl cat imageData of
            (cs, Throws e) \<Rightarrow> (cs, Throws e)
          | (cs, Hangs) \<Rightarrow> (cs, Hangs)
          | (cs, Returns imageDescription) \<Rightarrow>
              reading req ''instructions'' (\<lambda>instructions.
                case generate_ui ext cl mdl cat imageDescription instructions of
                  (cs2, r) \<Rightarrow> (cs @ cs2, r)))
      else ([], Throws (Error ''Expected request to be an object'')))"

text \<open>
  Lines 113 to 252, the body of \<open>try\<close>. It gives the catalog as it leaves it, and the
  reply.
\<close>

definition try_block :: "externals \<Rightarrow> client_config \<Rightarrow> string \<Rightarrow> jsval \<Rightarrow> string
    \<Rightarrow> model_call list \<times> (jsval \<times> reply) completion" where
  "try_block ext cl mdl cat contents =
     (case JSON_parse ext contents of
        Inl e \<Rightarrow> ([], Throws e)
      | Inr payload \<Rightarrow>
          reading payload ''clientUiCapabilities'' (\<lambda>caps.
            if truthy caps then
              (case has_property ''dynamicCatalog'' caps of
                 Inl e \<Rightarrow> ([], Throws e)
               | Inr True \<Rightarrow>
                   reading caps ''dynamicCatalog'' (\<lambda>dynamicCatalog.
                     ([], Returns (dynamicCatalog,
                                   Responded (model_response ''Dynamic Catalog Received''))))
               | Inr False \<Rightarrow> ([], Returns (cat, Unanswered)))
            else
              reading payload ''userAction'' (\<lambda>userAction.
                if truthy userAction then ([], Returns (cat, Unanswered))
                else
                  reading payload ''request'' (\<lambda>req.
                    if \<not> truthy req \<or> \<not> truthy cat
                    then ([], Returns (cat, Responded (error_response ''No payload or catalog'')))
                    else
                      (case generation ext cl mdl cat req of
                         (cs, Returns r) \<Rightarrow> (cs, Returns (cat, r))
                       | (cs, Throws e) \<Rightarrow> (cs, Throws e)
                       | (cs, Hangs) \<Rightarrow> (cs, Hangs))))))"

record outcome =
  next_state :: server_state
  reply :: reply
  model_calls :: "model_call list"

text \<open>
  Lines 78 to 268. The client is made when the variable is still \<open>null\<close>, the model name
  is resolved, and for a POST the chunks are put together and handled; \<open>catch\<close> turns
  whatever was thrown into the 400 response.
\<close>

definition middleware :: "externals \<Rightarrow> env \<Rightarrow> server_state \<Rightarrow> request \<Rightarrow> outcome" where
  "middleware ext e s rq =
     (let cl = (case client s of None \<Rightarrow> new_client e | Some c \<Rightarrow> c);
          mdl = resolve_model e
      in if req_method rq = ''POST'' then
           (case try_block ext cl mdl (catalog s) (concat (chunks rq)) of
              (cs, Returns (cat, r)) \<Rightarrow>
                \<lparr> next_state = \<lparr> catalog = cat, client = Some cl \<rparr>, reply = r, model_calls = cs \<rparr>
            | (cs, Throws err) \<Rightarrow>
                \<lparr> next_state = \<lparr> catalog = catalog s, client = Some cl \<rparr>,
                  reply = Responded (error_response (String_of_exn err)),
                  model_calls = cs \<rparr>
            | (cs, Hangs) \<Rightarrow>
                \<lparr> next_state = \<lparr> catalog = catalog s, client = Some cl \<rparr>,
                  reply = Unanswered, model_calls = cs \<rparr>)
         else \<lparr> next_state = \<lparr> catalog = catalog s, client = Some cl \<rparr>,
                reply = Next, model_calls = [] \<rparr>)"

text \<open>The requests of a run, each with the surroundings it meets, handled in order.\<close>

type_synonym arrival = "externals \<times> env \<times> request"

fun run :: "server_state \<Rightarrow> arrival list \<Rightarrow> server_state" where
  "run s [] = s"
| "run s ((ext, e, rq) # rest) = run (next_state (middleware ext e s rq)) rest"

text \<open>
  The catalog a request announces: the value under \<open>dynamicCatalog\<close>, when the request is
  a POST whose payload has a truthy \<open>clientUiCapabilities\<close> with that key.
\<close>

definition announced :: "arrival \<Rightarrow> jsval option" where
  "announced a =
     (case a of (ext, e, rq) \<Rightarrow>
        if req_method rq \<noteq> ''POST'' then None
        else
          (case JSON_parse ext (concat (chunks rq)) of
             Inl err \<Rightarrow> None
           | Inr payload \<Rightarrow>
               (case get_prop payload ''clientUiCapabilities'' of
                  Inl err \<Rightarrow> None
                | Inr caps \<Rightarrow>
                    (if truthy caps \<and> has_property ''dynamicCatalog'' caps = Inr True
                     then (case get_prop caps ''dynamicCatalog'' of
                             Inl err \<Rightarrow> None
                           | Inr v \<Rightarrow> Some v)
                     else None))))"

subsection \<open>Surroundings for running the handler on examples\<close>

text \<open>
  The examples below need values for the parameters. \<open>sample_bodies\<close> lists a few request
  bodies with the value \<open>JSON.parse\<close> gives for each; any other text counts as a syntax
  error. The sample guard accepts objects, the sample prompt builders return one or two
  parts, and the sample provider answers every call with the text \<open>[]\<close>.
\<close>

definition sample_bodies :: "(string \<times> jsval) list" where
  \<open>sample_bodies =
    [(''{"clientUiCapabilities":{"dynamicCatalog":{"components":[]}}}'',
      Obj [(''clientUiCapabilities'', Obj [(''dynamicCatalog'', Obj [(''components'', Arr [])])])]),
     (''{"clientUiCapabilities":{"dynamicCatalog":null}}'',
      Obj [(''clientUiCapabilities'', Obj [(''dynamicCatalog'', Null)])]),
     (''{"clientUiCapabilities":true}'',
      Obj [(''clientUiCapabilities'', Bool True)]),
     (''{"clientUiCapabilities":{},"request":{"instructions":"hello"}}'',
      Obj [(''clientUiCapabilities'', Obj []),
           (''request'', Obj [(''instructions'', Str ''hello'')])]),
     (''{"request":{"instructions":"hello"}}'',
      Obj [(''request'', Obj [(''instructions'', Str ''hello'')])]),
     (''{"request":"hello"}'',
      Obj [(''request'', Str ''hello'')]),
     (''{"request":{"instructions":"hello","imageData":"iVBORw0KGgo="}}'',
      Obj [(''request'', Obj [(''instructions'', Str ''hello''),
                              (''imageData'', Str ''iVBORw0KGgo='')])]),
     (''{"request":{"instructions":"hello","imageData":"https://example.com/a.png"}}'',
      Obj [(''request'', Obj [(''instructions'', Str ''hello''),
                              (''imageData'', Str ''https://example.com/a.png'')])]),
     (''{"request":{"instructions":"hello","imageData":"data:image/png;base64,iVBORw0KGgo="}}'',
      Obj [(''request'', Obj [(''instructions'', Str ''hello''),
                              (''imageData'', Str ''data:image/png;base64,iVBORw0KGgo='')])]),
     (''{"request":{"instructions":"hello","imageData":"data:image/png,iVBORw0KGgo="}}'',
      Obj [(''request'', Obj [(''instructions'', Str ''hello''),
                              (''imageData'', Str ''data:image/png,iVBORw0KGgo='')])]),
     (''null'', Null)]\<close>

definition sample_externals :: externals where
  "sample_externals =
     \<lparr> JSON_parse =
         (\<lambda>s. case map_of sample_bodies s of
                None \<Rightarrow> Inl (SyntaxError ''Unexpected token'')
              | Some v \<Rightarrow> Inr v),
       isObject = (\<lambda>v. case v of Obj kvs \<Rightarrow> True | _ \<Rightarrow> False),
       createImageParsePrompt = (\<lambda>cat part. Inr [Text ''Describe the image'', part]),
       createA2UIPrompt =
         (\<lambda>cat imageDescription instructions.
            Inr [Text imageDescription,
                 Text (case instructions of Str s \<Rightarrow> s | _ \<Rightarrow> [])]),
       chat_completions_create =
         (\<lambda>cl params. Fulfilled \<lparr> choices = [\<lparr> message_content = Some (Some ''[]'') \<rparr>] \<rparr>) \<rparr>"

definition failing_externals :: externals where
  "failing_externals =
     sample_externals
       \<lparr> chat_completions_create := (\<lambda>cl params. Rejected (Rejection ''Error: Connection error.'')) \<rparr>"

definition sample_env :: env where
  "sample_env =
     \<lparr> OPENAI_API_KEY = Some ''sk-test'', GEMINI_API_KEY = None,
       OPENAI_BASE_URL = None, AI_MODEL = None \<rparr>"

definition legacy_env :: env where
  "legacy_env =
     \<lparr> OPENAI_API_KEY = None, GEMINI_API_KEY = Some ''g-test'',
       OPENAI_BASE_URL = None, AI_MODEL = None \<rparr>"

definition post :: "string \<Rightarrow> request" where
  "post contents = \<lparr> req_method = ''POST'', chunks = [contents] \<rparr>"

definition sample_catalog :: jsval where
  "sample_catalog = Obj [(''components'', Arr [])]"

section \<open>Properties\<close>

subsection \<open>The response bodies, the client and the catalog\<close>

lemma no_payload_body:
  \<open>error_response ''No payload or catalog'' =
     \<lparr> statusCode = 400, headers = [(''Content-Type'', ''application/json'')],
       body = ''{"error":"Invalid message - No payload or catalog"}'' \<rparr>\<close>
  by (simp add: error_response_def json_response_def QuoteJSONString_def quote_char_def)

lemma ack_body:
  \<open>model_response ''Dynamic Catalog Received'' =
     \<lparr> statusCode = 200, headers = [(''Content-Type'', ''application/json'')],
       body = ''{"role":"model","parts":[{"text":"Dynamic Catalog Received"}]}'' \<rparr>\<close>
  by (simp add: model_response_def json_response_def QuoteJSONString_def quote_char_def)

lemma model_body:
  \<open>model_response txt =
     \<lparr> statusCode = 200, headers = [(''Content-Type'', ''application/json'')],
       body = ''{"role":"model","parts":[{"text":'' @ QuoteJSONString txt @ ''}]}'' \<rparr>\<close>
  by (simp add: model_response_def json_response_def QuoteJSONString_def quote_char_def)

lemma error_body:
  \<open>error_response d =
     \<lparr> statusCode = 400, headers = [(''Content-Type'', ''application/json'')],
       body = ''{"error":'' @ QuoteJSONString (''Invalid message - '' @ d) @ ''}'' \<rparr>\<close>
  by (simp add: error_response_def json_response_def QuoteJSONString_def quote_char_def)

lemma middleware_client:
  "client (next_state (middleware ext e s rq)) =
     Some (case client s of None \<Rightarrow> new_client e | Some c \<Rightarrow> c)"
  by (simp add: middleware_def Let_def split: prod.splits completion.splits)

lemma try_block_catalog:
  "try_block ext cl mdl cat contents = (cs, Returns (cat', r)) \<Longrightarrow>
     cat' = (case announced (ext, e, \<lparr> req_method = ''POST'', chunks = [contents] \<rparr>) of
               None \<Rightarrow> cat | Some v \<Rightarrow> v)"
  by (auto simp: try_block_def announced_def reading_def
           split: sum.splits if_splits bool.splits prod.splits completion.splits)

lemma middleware_catalog:
  "catalog (next_state (middleware ext e s rq)) =
     (case announced (ext, e, rq) of None \<Rightarrow> catalog s | Some v \<Rightarrow> v)"
  apply (simp add: middleware_def Let_def split: prod.splits completion.splits)
  apply (auto simp: try_block_def announced_def reading_def
           split: sum.splits if_splits bool.splits prod.splits completion.splits)
  done

lemma run_catalog_unchanged:
  "\<forall>a\<in>set hist. announced a = None \<Longrightarrow> catalog (run s hist) = catalog s"
  by (induction hist arbitrary: s) (auto simp: middleware_catalog)

lemma run_catalog_null:
  "catalog s = Null \<Longrightarrow> \<forall>a\<in>set hist. announced a = None \<or> announced a = Some Null \<Longrightarrow>
   catalog (run s hist) = Null"
  by (induction hist arbitrary: s) (auto simp: middleware_catalog)


lemma sample_parse_hello:
  \<open>JSON_parse sample_externals ''{"request":{"instructions":"hello"}}'' =
     Inr (Obj [(''request'', Obj [(''instructions'', Str ''hello'')])])\<close>
  by (simp add: sample_externals_def sample_bodies_def)

lemma sample_parse_announce:
  \<open>JSON_parse sample_externals ''{"clientUiCapabilities":{"dynamicCatalog":{"components":[]}}}'' =
     Inr (Obj [(''clientUiCapabilities'', Obj [(''dynamicCatalog'', Obj [(''components'', Arr [])])])])\<close>
  by (simp add: sample_externals_def sample_bodies_def)

lemma sample_parse_announce_null:
  \<open>JSON_parse sample_externals ''{"clientUiCapabilities":{"dynamicCatalog":null}}'' =
     Inr (Obj [(''clientUiCapabilities'', Obj [(''dynamicCatalog'', Null)])])\<close>
  by (simp add: sample_externals_def sample_bodies_def)

lemma sample_parse_caps_true:
  \<open>JSON_parse sample_externals ''{"clientUiCapabilities":true}'' =
     Inr (Obj [(''clientUiCapabilities'', Bool True)])\<close>
  by (simp add: sample_externals_def sample_bodies_def)

lemma sample_parse_caps_empty:
  \<open>JSON_parse sample_externals ''{"clientUiCapabilities":{},"request":{"instructions":"hello"}}'' =
     Inr (Obj [(''clientUiCapabilities'', Obj []),
               (''request'', Obj [(''instructions'', Str ''hello'')])])\<close>
  by (simp add: sample_externals_def sample_bodies_def)

text \<open>The two outcomes that involve no model call: the acknowledgement and the rejection.\<close>

lemma announcement_outcome:
  assumes "req_method rq = ''POST''"
    and "JSON_parse ext (concat (chunks rq)) = Inr payload"
    and "get_prop payload ''clientUiCapabilities'' = Inr (Obj kvs)"
    and "map_of kvs ''dynamicCatalog'' = Some v"
  shows "middleware ext e s rq =
           \<lparr> next_state = \<lparr> catalog = v,
                            client = Some (case client s of None \<Rightarrow> new_client e | Some c \<Rightarrow> c) \<rparr>,
             reply = Responded (model_response ''Dynamic Catalog Received''),
             model_calls = [] \<rparr>"
proof -
  have "''dynamicCatalog'' \<in> fst ` set kvs"
    using assms(4) by (metis domI dom_map_of_conv_image_fst)
  then have "try_block ext (case client s of None \<Rightarrow> new_client e | Some c \<Rightarrow> c)
               (resolve_model e) (catalog s) (concat (chunks rq))
             = ([], Returns (v, Responded (model_response ''Dynamic Catalog Received'')))"
    using assms(2-4) by (simp add: try_block_def reading_def)
  then show ?thesis
    using assms(1) by (simp add: middleware_def Let_def)
qed

lemma rejected_outcome:
  assumes "req_method rq = ''POST''"
    and "JSON_parse ext (concat (chunks rq)) = Inr payload"
    and "get_prop payload ''clientUiCapabilities'' = Inr caps" and "\<not> truthy caps"
    and "get_prop payload ''userAction'' = Inr userAction" and "\<not> truthy userAction"
    and "get_prop payload ''request'' = Inr req"
    and "\<not> truthy req \<or> \<not> truthy (catalog s)"
  shows "middleware ext e s rq =
           \<lparr> next_state = \<lparr> catalog = catalog s,
                            client = Some (case client s of None \<Rightarrow> new_client e | Some c \<Rightarrow> c) \<rparr>,
             reply = Responded (error_response ''No payload or catalog''),
             model_calls = [] \<rparr>"
proof -
  have "try_block ext (case client s of None \<Rightarrow> new_client e | Some c \<Rightarrow> c)
               (resolve_model e) (catalog s) (concat (chunks rq))
             = ([], Returns (catalog s, Responded (error_response ''No payload or catalog'')))"
    using assms(2-8) by (auto simp: try_block_def reading_def)
  then show ?thesis
    using assms(1) by (simp add: middleware_def Let_def)
qed

lemma get_prop_any_key:
  "get_prop v k = Inr x \<Longrightarrow> \<exists>y. get_prop v k' = Inr y"
  by (cases v) auto

subsection \<open>The generation path\<close>

lemma statusCode_simps [simp]:
  "statusCode (model_response t) = 200" "statusCode (error_response d) = 400"
  by (simp_all add: model_response_def error_response_def json_response_def)

text \<open>The two passes and the generation branch, with the awaited call written out.\<close>

lemma generate_ui_unfold:
  "generate_ui ext cl mdl cat desc instr =
     (case createA2UIPrompt ext cat desc instr of
        Inl e \<Rightarrow> ([], Throws e)
      | Inr parts \<Rightarrow>
          ([(cl, a2ui_params mdl parts)],
           (case chat_completions_create ext cl (a2ui_params mdl parts) of
              Fulfilled r \<Rightarrow> Returns (Responded (model_response (first_content r)))
            | Rejected e \<Rightarrow> Throws e
            | Pending \<Rightarrow> Hangs)))"
  by (simp add: generate_ui_def chat_call_def split: sum.splits settled.splits)

lemma describe_image_unfold:
  "describe_image ext cl mdl cat d =
     (case exec_data_group d of
        None \<Rightarrow> ([], Throws (Error ''Invalid inline data''))
      | Some mime \<Rightarrow>
          if mime = [] then ([], Throws (Error ''Invalid inline data''))
          else (case createImageParsePrompt ext cat (InlineData mime (drop (length (''data:'' @ mime @ '';base64,'')) d)) of
                  Inl e \<Rightarrow> ([], Throws e)
                | Inr parts \<Rightarrow>
                    ([(cl, image_params mdl parts)],
                     (case chat_completions_create ext cl (image_params mdl parts) of
                        Fulfilled r \<Rightarrow> Returns (first_content r)
                      | Rejected e \<Rightarrow> Throws e
                      | Pending \<Rightarrow> Hangs))))"
  by (simp add: describe_image_def chat_call_def Let_def split: option.splits sum.splits)

lemma try_block_generation:
  assumes "JSON_parse ext contents = Inr payload"
    and "get_prop payload ''clientUiCapabilities'' = Inr caps" and "\<not> truthy caps"
    and "get_prop payload ''userAction'' = Inr userAction" and "\<not> truthy userAction"
    and "get_prop payload ''request'' = Inr req"
    and "truthy req" and "truthy cat"
  shows "try_block ext cl mdl cat contents =
           (case generation ext cl mdl cat req of
              (cs, Returns r) \<Rightarrow> (cs, Returns (cat, r))
            | (cs, Throws e) \<Rightarrow> (cs, Throws e)
            | (cs, Hangs) \<Rightarrow> (cs, Hangs))"
  using assms by (simp add: try_block_def reading_def)

lemma middleware_post:
  "req_method rq = ''POST'' \<Longrightarrow>
   middleware ext e s rq =
     (case try_block ext (case client s of None \<Rightarrow> new_client e | Some c \<Rightarrow> c) (resolve_model e)
             (catalog s) (concat (chunks rq)) of
        (cs, Returns (cat, r)) \<Rightarrow>
          \<lparr> next_state = \<lparr> catalog = cat,
                client = Some (case client s of None \<Rightarrow> new_client e | Some c \<Rightarrow> c) \<rparr>,
            reply = r, model_calls = cs \<rparr>
      | (cs, Throws err) \<Rightarrow>
          \<lparr> next_state = \<lparr> catalog = catalog s,
                client = Some (case client s of None \<Rightarrow> new_client e | Some c \<Rightarrow> c) \<rparr>,
            reply = Responded (error_response (String_of_exn err)), model_calls = cs \<rparr>
      | (cs, Hangs) \<Rightarrow>
          \<lparr> next_state = \<lparr> catalog = catalog s,
                client = Some (case client s of None \<Rightarrow> new_client e | Some c \<Rightarrow> c) \<rparr>,
            reply = Unanswered, model_calls = cs \<rparr>)"
  by (simp add: middleware_def Let_def)

text \<open>
  The calls of the generation path: each goes through the client with the resolved model
  name, a rejected call is the last one and its error is what is thrown, and there are at
  most two.
\<close>

lemma generation_calls:
  "generation ext cl mdl cat req = (cs, res) \<Longrightarrow> (c, p) \<in> set cs \<Longrightarrow>
     c = cl \<and> model p = mdl"
  by (auto simp: generation_def reading_def image_description_def describe_image_unfold
        generate_ui_unfold image_params_def a2ui_params_def
      split: if_splits sum.splits prod.splits completion.splits jsval.splits option.splits settled.splits)

lemma generation_rejected:
  "generation ext cl mdl cat req = (cs, res) \<Longrightarrow> (c, p) \<in> set cs \<Longrightarrow>
   chat_completions_create ext c p = Rejected err \<Longrightarrow>
     res = Throws err \<and> last cs = (c, p)"
  by (auto simp: generation_def reading_def image_description_def describe_image_unfold
        generate_ui_unfold
      split: if_splits sum.splits prod.splits completion.splits jsval.splits option.splits settled.splits)

lemma generation_length:
  "generation ext cl mdl cat req = (cs, res) \<Longrightarrow> length cs \<le> 2"
  by (auto simp: generation_def reading_def image_description_def describe_image_unfold
        generate_ui_unfold
      split: if_splits sum.splits prod.splits completion.splits jsval.splits option.splits settled.splits)

text \<open>
  The expression finds nothing in a string without a semicolon. What the generation
  branch does on inline data without a MIME type, and what a successful run of it
  consists of.
\<close>

lemma match_needs_semicolon:
  assumes "CHR '';'' \<notin> set s"
  shows "match_data_at_start s = None"
proof -
  have "set (takeWhile (\<lambda>c. \<not> is_line_terminator c) (drop 5 s)) \<subseteq> set (drop 5 s)"
    by (rule set_takeWhileD [THEN conjunct1, THEN subsetI]) 
  also have "\<dots> \<subseteq> set s" by (rule set_drop_subset)
  finally have "CHR '';'' \<notin> set (takeWhile (\<lambda>c. \<not> is_line_terminator c) (drop 5 s))"
    using assms by blast
  then show ?thesis by (simp add: match_data_at_start_def Let_def)
qed

lemma exec_needs_semicolon:
  "CHR '';'' \<notin> set s \<Longrightarrow> exec_data_group s = None"
proof (induction s)
  case Nil
  then show ?case by simp
next
  case (Cons c cs)
  from Cons.prems have "match_data_at_start (c # cs) = None" by (rule match_needs_semicolon)
  moreover have "exec_data_group cs = None" using Cons by simp
  ultimately show ?case by simp
qed

lemma generation_invalid_inline_data:
  assumes "isObject ext req"
    and "get_prop req ''imageData'' = Inr (Str d)" and "take 5 d = ''data:''"
    and "exec_data_group d = None \<or> exec_data_group d = Some []"
  shows "generation ext cl mdl cat req = ([], Throws (Error ''Invalid inline data''))"
proof -
  have "d \<noteq> []" using assms(3) by auto
  then show ?thesis
    using assms by (auto simp: generation_def reading_def image_description_def describe_image_unfold)
qed

lemma invalid_inline_data_body:
  \<open>error_response (String_of_exn (Error ''Invalid inline data'')) =
     \<lparr> statusCode = 400, headers = [(''Content-Type'', ''application/json'')],
       body = ''{"error":"Invalid message - Error: Invalid inline data"}'' \<rparr>\<close>
  by (simp add: error_response_def json_response_def QuoteJSONString_def quote_char_def error_toString_def)

lemma not_object_body:
  \<open>error_response (String_of_exn (Error ''Expected request to be an object'')) =
     \<lparr> statusCode = 400, headers = [(''Content-Type'', ''application/json'')],
       body = ''{"error":"Invalid message - Error: Expected request to be an object"}'' \<rparr>\<close>
  by (simp add: error_response_def json_response_def QuoteJSONString_def quote_char_def error_toString_def)


text \<open>The same facts for the whole handler, and the client over a run.\<close>

lemma try_block_from_generation:
  "try_block ext cl mdl cat contents = (cs, res) \<Longrightarrow> cs \<noteq> [] \<Longrightarrow>
     \<exists>req gres. generation ext cl mdl cat req = (cs, gres)
        \<and> res = (case gres of Returns r \<Rightarrow> Returns (cat, r) | Throws e \<Rightarrow> Throws e | Hangs \<Rightarrow> Hangs)"
  by (auto simp: try_block_def reading_def
      split: if_splits sum.splits prod.splits completion.splits bool.splits)

lemma model_calls_try_block:
  "model_calls (middleware ext e s rq) =
     (if req_method rq = ''POST''
      then fst (try_block ext (case client s of None \<Rightarrow> new_client e | Some c \<Rightarrow> c)
                  (resolve_model e) (catalog s) (concat (chunks rq)))
      else [])"
  by (simp add: middleware_def Let_def split: prod.splits completion.splits)

lemma middleware_calls:
  assumes "(c, p) \<in> set (model_calls (middleware ext e s rq))"
  shows "c = (case client s of None \<Rightarrow> new_client e | Some c \<Rightarrow> c) \<and> model p = resolve_model e"
proof -
  let ?cl = "case client s of None \<Rightarrow> new_client e | Some c \<Rightarrow> c"
  obtain cs res where tb: "try_block ext ?cl (resolve_model e) (catalog s) (concat (chunks rq)) = (cs, res)"
    by (cases "try_block ext ?cl (resolve_model e) (catalog s) (concat (chunks rq))")
  from assms have "(c, p) \<in> set cs" and "cs \<noteq> []"
    using tb by (auto simp: model_calls_try_block split: if_splits)
  then show ?thesis
    using try_block_from_generation [OF tb] generation_calls by blast
qed

lemma middleware_rejected_call:
  assumes "(c, p) \<in> set (model_calls (middleware ext e s rq))"
    and "chat_completions_create ext c p = Rejected err"
  shows "reply (middleware ext e s rq) = Responded (error_response (String_of_exn err))
         \<and> last (model_calls (middleware ext e s rq)) = (c, p)"
proof -
  let ?cl = "case client s of None \<Rightarrow> new_client e | Some c \<Rightarrow> c"
  obtain cs res where tb: "try_block ext ?cl (resolve_model e) (catalog s) (concat (chunks rq)) = (cs, res)"
    by (cases "try_block ext ?cl (resolve_model e) (catalog s) (concat (chunks rq))")
  from assms(1) have post: "req_method rq = ''POST''" and mem: "(c, p) \<in> set cs" and ne: "cs \<noteq> []"
    using tb by (auto simp: model_calls_try_block split: if_splits)
  from try_block_from_generation [OF tb ne] obtain req gres
    where g: "generation ext ?cl (resolve_model e) (catalog s) req = (cs, gres)"
      and r: "res = (case gres of Returns r \<Rightarrow> Returns (catalog s, r) | Throws e \<Rightarrow> Throws e | Hangs \<Rightarrow> Hangs)"
    by blast
  from generation_rejected [OF g mem assms(2)] have "gres = Throws err" and "last cs = (c, p)"
    by simp_all
  then show ?thesis
    using r tb post by (simp add: middleware_post)
qed

lemma middleware_calls_length:
  "length (model_calls (middleware ext e s rq)) \<le> 2"
proof -
  let ?cl = "case client s of None \<Rightarrow> new_client e | Some c \<Rightarrow> c"
  obtain cs res where tb: "try_block ext ?cl (resolve_model e) (catalog s) (concat (chunks rq)) = (cs, res)"
    by (cases "try_block ext ?cl (resolve_model e) (catalog s) (concat (chunks rq))")
  show ?thesis
  proof (cases "cs = []")
    case True
    then show ?thesis using tb by (simp add: model_calls_try_block)
  next
    case False
    then show ?thesis
      using try_block_from_generation [OF tb False] generation_length tb
      by (auto simp: model_calls_try_block)
  qed
qed

lemma run_client:
  "client s = Some c \<Longrightarrow> client (run s hist) = Some c"
  by (induction hist arbitrary: s) (auto simp: middleware_client)

text \<open>Unfolding the handler on the examples.\<close>

lemmas handler_defs =
  middleware_def try_block_def reading_def generation_def image_description_def
  describe_image_def generate_ui_def chat_call_def Let_def post_def

lemmas sample_defs =
  sample_externals_def sample_bodies_def sample_env_def sample_catalog_def

lemma sample_generation_calls:
  \<open>model_calls (middleware sample_externals sample_env \<lparr> catalog = sample_catalog, client = None \<rparr>
       (post ''{"request":{"instructions":"hello"}}'')) =
     [(new_client sample_env, a2ui_params (resolve_model sample_env) [Text [], Text ''hello''])]\<close>
  by (simp add: handler_defs sample_defs)



lemma generation_status:
  "generation ext cl mdl cat req = (cs, Returns (Responded r)) \<Longrightarrow> statusCode r = 200"
  by (auto simp: generation_def reading_def generate_ui_unfold
      split: if_splits sum.splits prod.splits completion.splits settled.splits)

lemma try_block_status:
  "try_block ext cl mdl cat contents = (cs, Returns (cat', Responded r)) \<Longrightarrow>
     statusCode r = 200 \<or> statusCode r = 400"
  by (auto simp: try_block_def reading_def generation_status
      split: if_splits sum.splits prod.splits completion.splits bool.splits)

lemma middleware_status:
  "reply (middleware ext e s rq) = Responded r \<Longrightarrow> statusCode r = 200 \<or> statusCode r = 400"
  by (auto simp: middleware_def Let_def try_block_status
      split: if_splits prod.splits completion.splits)

text \<open>What is thrown inside \<open>try\<close>, and what \<open>catch\<close> makes of it.\<close>

lemma thrown_outcome:
  assumes "req_method rq = ''POST''"
    and "try_block ext (case client s of None \<Rightarrow> new_client e | Some c \<Rightarrow> c) (resolve_model e)
           (catalog s) (concat (chunks rq)) = (cs, Throws err)"
  shows "middleware ext e s rq =
           \<lparr> next_state = \<lparr> catalog = catalog s,
                            client = Some (case client s of None \<Rightarrow> new_client e | Some c \<Rightarrow> c) \<rparr>,
             reply = Responded (error_response (String_of_exn err)),
             model_calls = cs \<rparr>"
  using assms by (simp add: middleware_post)

lemma try_block_parse_error:
  "JSON_parse ext contents = Inl err \<Longrightarrow> try_block ext cl mdl cat contents = ([], Throws err)"
  by (simp add: try_block_def)

lemma generation_not_object:
  "\<not> isObject ext req \<Longrightarrow>
   generation ext cl mdl cat req = ([], Throws (Error ''Expected request to be an object''))"
  by (simp add: generation_def)

lemma failing_generation_calls:
  \<open>model_calls (middleware failing_externals sample_env \<lparr> catalog = sample_catalog, client = None \<rparr>
       (post ''{"request":{"instructions":"hello"}}'')) =
     [(new_client sample_env, a2ui_params (resolve_model sample_env) [Text [], Text ''hello''])]\<close>
  by (simp add: handler_defs sample_defs failing_externals_def)

text \<open>
  The two calls of a request differ in their system message, so no call is issued twice.
\<close>

lemma system_prompts_differ: "IMAGE_SYSTEM_PROMPT \<noteq> A2UI_SYSTEM_PROMPT"
  by (simp add: IMAGE_SYSTEM_PROMPT_def A2UI_SYSTEM_PROMPT_def join_lines_def)

lemma params_differ: "image_params mdl x \<noteq> a2ui_params mdl' y"
  using system_prompts_differ by (simp add: image_params_def a2ui_params_def)

lemma generation_distinct:
  "generation ext cl mdl cat req = (cs, res) \<Longrightarrow> distinct cs"
  by (auto simp: generation_def reading_def image_description_def describe_image_unfold
        generate_ui_unfold params_differ
      split: if_splits sum.splits prod.splits completion.splits jsval.splits option.splits settled.splits)

lemma middleware_calls_distinct:
  "distinct (model_calls (middleware ext e s rq))"
proof -
  let ?cl = "case client s of None \<Rightarrow> new_client e | Some c \<Rightarrow> c"
  obtain cs res where tb: "try_block ext ?cl (resolve_model e) (catalog s) (concat (chunks rq)) = (cs, res)"
    by (cases "try_block ext ?cl (resolve_model e) (catalog s) (concat (chunks rq))")
  show ?thesis
  proof (cases "cs = []")
    case True
    then show ?thesis using tb by (simp add: model_calls_try_block)
  next
    case False
    then show ?thesis
      using try_block_from_generation [OF tb False] generation_distinct tb
      by (auto simp: model_calls_try_block)
  qed
qed

text \<open>A property can be read from every value but \<open>null\<close> and \<open>undefined\<close>.\<close>

lemma get_prop_reads:
  "(\<exists>v. get_prop payload k = Inr v) \<longleftrightarrow> payload \<noteq> Null \<and> payload \<noteq> Undefined"
  by (cases payload) auto

subsection \<open>Requests without a request field or before any catalog\<close>

text \<open>
  C1, as amended. Take a POST whose payload is not \<open>null\<close>, so that its fields can be
  read, and has neither a truthy \<open>clientUiCapabilities\<close> nor a truthy \<open>userAction\<close>. If
  its \<open>request\<close> is falsy (absent included), or if the state was reached from the initial
  one by requests none of which announced a catalog, the handler answers 400 with the body
  \<open>{"error":"Invalid message - No payload or catalog"}\<close>, calls no model and leaves the
  catalog as it was. So a generation request sent before any catalog announcement is
  rejected this way.
\<close>

theorem C1_rejects_without_request_or_catalog:
  assumes "req_method rq = ''POST''"
    and "JSON_parse ext (concat (chunks rq)) = Inr payload"
    and "get_prop payload ''clientUiCapabilities'' = Inr caps" and "\<not> truthy caps"
    and "get_prop payload ''userAction'' = Inr userAction" and "\<not> truthy userAction"
    and "get_prop payload ''request'' = Inr req"
    and "\<not> truthy req \<or> (\<exists>hist. s = run initial_state hist \<and> (\<forall>a\<in>set hist. announced a = None))"
  shows \<open>reply (middleware ext e s rq) =
           Responded \<lparr> statusCode = 400, headers = [(''Content-Type'', ''application/json'')],
                       body = ''{"error":"Invalid message - No payload or catalog"}'' \<rparr>
         \<and> model_calls (middleware ext e s rq) = []
         \<and> catalog (next_state (middleware ext e s rq)) = catalog s\<close>
proof -
  have "\<not> truthy req \<or> \<not> truthy (catalog s)"
  proof -
    { fix hist assume "s = run initial_state hist" and "\<forall>a\<in>set hist. announced a = None"
      then have "catalog s = Null"
        using run_catalog_unchanged [of hist initial_state] by (simp add: initial_state_def)
      then have "\<not> truthy (catalog s)" by simp }
    with assms(8) show ?thesis by blast
  qed
  then show ?thesis
    using rejected_outcome [OF assms(1-7)] by (simp add: no_payload_body)
qed

theorem C1_witness:
  \<open>req_method (post ''{"request":{"instructions":"hello"}}'') = ''POST''
   \<and> JSON_parse sample_externals (concat (chunks (post ''{"request":{"instructions":"hello"}}'')))
       = Inr (Obj [(''request'', Obj [(''instructions'', Str ''hello'')])])
   \<and> get_prop (Obj [(''request'', Obj [(''instructions'', Str ''hello'')])]) ''clientUiCapabilities''
       = Inr Undefined
   \<and> \<not> truthy Undefined
   \<and> get_prop (Obj [(''request'', Obj [(''instructions'', Str ''hello'')])]) ''request''
       = Inr (Obj [(''instructions'', Str ''hello'')])
   \<and> truthy (Obj [(''instructions'', Str ''hello'')])
   \<and> announced (sample_externals, sample_env, \<lparr> req_method = ''GET'', chunks = [] \<rparr>) = None
   \<and> reply (middleware sample_externals sample_env
              (run initial_state [(sample_externals, sample_env, \<lparr> req_method = ''GET'', chunks = [] \<rparr>)])
              (post ''{"request":{"instructions":"hello"}}'')) =
           Responded \<lparr> statusCode = 400, headers = [(''Content-Type'', ''application/json'')],
                       body = ''{"error":"Invalid message - No payload or catalog"}'' \<rparr>\<close>
proof -
  let ?rq = \<open>post ''{"request":{"instructions":"hello"}}''\<close>
  let ?payload = "Obj [(''request'', Obj [(''instructions'', Str ''hello'')])]"
  let ?get = "(sample_externals, sample_env, \<lparr> req_method = ''GET'', chunks = [] \<rparr>)"
  have h1: "req_method ?rq = ''POST''" by (simp add: post_def)
  have h2: "JSON_parse sample_externals (concat (chunks ?rq)) = Inr ?payload"
    by (simp add: post_def sample_parse_hello)
  have h3: "get_prop ?payload ''clientUiCapabilities'' = Inr Undefined" by simp
  have h4: "\<not> truthy Undefined" by simp
  have h5: "get_prop ?payload ''userAction'' = Inr Undefined" by simp
  have h6: "get_prop ?payload ''request'' = Inr (Obj [(''instructions'', Str ''hello'')])" by simp
  have h7: "announced ?get = None" by (simp add: announced_def)
  have h8: "\<not> truthy (Obj [(''instructions'', Str ''hello'')])
            \<or> (\<exists>hist. run initial_state [?get] = run initial_state hist
                  \<and> (\<forall>a\<in>set hist. announced a = None))"
    using h7 by (intro disjI2 exI [of _ "[?get]"]) simp
  show ?thesis
    using C1_rejects_without_request_or_catalog [OF h1 h2 h3 h4 h5 h4 h6 h8] h1 h2 h3 h4 h6 h7
    by simp
qed

text \<open>
  The claim as first stated speaks of every POST payload. The body \<open>null\<close> is a payload
  without any field: reading \<open>clientUiCapabilities\<close> from it throws, and the answer is
  400 with the text of the TypeError, not the body above.
\<close>

theorem C1_counterexample:
  \<open>JSON_parse sample_externals (concat (chunks (post ''null''))) = Inr Null
   \<and> reply (middleware sample_externals sample_env initial_state (post ''null''))
       = Responded \<lparr> statusCode = 400, headers = [(''Content-Type'', ''application/json'')],
           body = ''{"error":"Invalid message - TypeError: Cannot read properties of null (reading 'clientUiCapabilities')"}'' \<rparr>
   \<and> reply (middleware sample_externals sample_env initial_state (post ''null''))
       \<noteq> Responded \<lparr> statusCode = 400, headers = [(''Content-Type'', ''application/json'')],
           body = ''{"error":"Invalid message - No payload or catalog"}'' \<rparr>\<close>
  by (simp add: handler_defs sample_defs initial_state_def error_body error_toString_def
        QuoteJSONString_def quote_char_def)

subsection \<open>Catalog announcements\<close>

text \<open>
  C4. Take a POST whose payload has a \<open>clientUiCapabilities\<close> object with the key
  \<open>dynamicCatalog\<close>. Whatever the state before, the catalog afterwards is the announced
  value (the old one is replaced, not merged), the answer is 200 with the body
  \<open>{"role":"model","parts":[{"text":"Dynamic Catalog Received"}]}\<close>, and no model call
  is made. The example after the theorem is the body
  \<open>{"clientUiCapabilities":{"dynamicCatalog":{"components":[]}}}\<close>, sent to a server
  that holds another catalog.
\<close>

theorem C4_catalog_announcement:
  assumes "req_method rq = ''POST''"
    and "JSON_parse ext (concat (chunks rq)) = Inr payload"
    and "get_prop payload ''clientUiCapabilities'' = Inr (Obj kvs)"
    and "map_of kvs ''dynamicCatalog'' = Some announcedCatalog"
  shows \<open>catalog (next_state (middleware ext e s rq)) = announcedCatalog
         \<and> reply (middleware ext e s rq) =
             Responded \<lparr> statusCode = 200, headers = [(''Content-Type'', ''application/json'')],
                         body = ''{"role":"model","parts":[{"text":"Dynamic Catalog Received"}]}'' \<rparr>
         \<and> model_calls (middleware ext e s rq) = []\<close>
  using announcement_outcome [OF assms, of e s] by (simp add: ack_body)

theorem C4_witness:
  \<open>req_method (post ''{"clientUiCapabilities":{"dynamicCatalog":{"components":[]}}}'') = ''POST''
   \<and> JSON_parse sample_externals
         (concat (chunks (post ''{"clientUiCapabilities":{"dynamicCatalog":{"components":[]}}}'')))
       = Inr (Obj [(''clientUiCapabilities'', Obj [(''dynamicCatalog'', Obj [(''components'', Arr [])])])])
   \<and> get_prop (Obj [(''clientUiCapabilities'', Obj [(''dynamicCatalog'', Obj [(''components'', Arr [])])])])
         ''clientUiCapabilities''
       = Inr (Obj [(''dynamicCatalog'', Obj [(''components'', Arr [])])])
   \<and> map_of [(''dynamicCatalog'', Obj [(''components'', Arr [])])] ''dynamicCatalog''
       = Some (Obj [(''components'', Arr [])])
   \<and> catalog (next_state (middleware sample_externals sample_env
         \<lparr> catalog = Obj [(''components'', Arr [Str ''Button''])], client = None \<rparr>
         (post ''{"clientUiCapabilities":{"dynamicCatalog":{"components":[]}}}'')))
       = Obj [(''components'', Arr [])]
   \<and> reply (middleware sample_externals sample_env
         \<lparr> catalog = Obj [(''components'', Arr [Str ''Button''])], client = None \<rparr>
         (post ''{"clientUiCapabilities":{"dynamicCatalog":{"components":[]}}}''))
       = Responded \<lparr> statusCode = 200, headers = [(''Content-Type'', ''application/json'')],
                     body = ''{"role":"model","parts":[{"text":"Dynamic Catalog Received"}]}'' \<rparr>
   \<and> model_calls (middleware sample_externals sample_env
         \<lparr> catalog = Obj [(''components'', Arr [Str ''Button''])], client = None \<rparr>
         (post ''{"clientUiCapabilities":{"dynamicCatalog":{"components":[]}}}'')) = []\<close>
proof -
  let ?rq = \<open>post ''{"clientUiCapabilities":{"dynamicCatalog":{"components":[]}}}''\<close>
  let ?kvs = "[(''dynamicCatalog'', Obj [(''components'', Arr [])])]"
  let ?payload = "Obj [(''clientUiCapabilities'', Obj ?kvs)]"
  have h1: "req_method ?rq = ''POST''" by (simp add: post_def)
  have h2: "JSON_parse sample_externals (concat (chunks ?rq)) = Inr ?payload"
    by (simp add: post_def sample_parse_announce)
  have h3: "get_prop ?payload ''clientUiCapabilities'' = Inr (Obj ?kvs)" by simp
  have h4: "map_of ?kvs ''dynamicCatalog'' = Some (Obj [(''components'', Arr [])])" by simp
  show ?thesis
    using C4_catalog_announcement [OF h1 h2 h3 h4] h1 h2 h3 h4 by simp
qed

text \<open>
  C10. An announcement whose \<open>dynamicCatalog\<close> is \<open>null\<close> is acknowledged with the 200
  body and leaves \<open>null\<close> in the catalog. After it, and after any further requests none
  of which announces a catalog other than \<open>null\<close>, every generation request (a POST with
  neither a truthy \<open>clientUiCapabilities\<close> nor a truthy \<open>userAction\<close>) is answered 400
  \<open>No payload or catalog\<close>, without a model call.
\<close>

theorem C10_null_catalog_acknowledged_but_unusable:
  assumes "req_method rqa = ''POST''"
    and "JSON_parse exta (concat (chunks rqa)) = Inr payloada"
    and "get_prop payloada ''clientUiCapabilities'' = Inr (Obj kvs)"
    and "map_of kvs ''dynamicCatalog'' = Some Null"
    and "\<forall>a\<in>set later. announced a = None \<or> announced a = Some Null"
    and "req_method rq = ''POST''"
    and "JSON_parse ext (concat (chunks rq)) = Inr payload"
    and "get_prop payload ''clientUiCapabilities'' = Inr caps" and "\<not> truthy caps"
    and "get_prop payload ''userAction'' = Inr userAction" and "\<not> truthy userAction"
  shows \<open>reply (middleware exta ea s rqa) =
           Responded \<lparr> statusCode = 200, headers = [(''Content-Type'', ''application/json'')],
                       body = ''{"role":"model","parts":[{"text":"Dynamic Catalog Received"}]}'' \<rparr>
         \<and> catalog (next_state (middleware exta ea s rqa)) = Null
         \<and> reply (middleware ext e (run (next_state (middleware exta ea s rqa)) later) rq) =
           Responded \<lparr> statusCode = 400, headers = [(''Content-Type'', ''application/json'')],
                       body = ''{"error":"Invalid message - No payload or catalog"}'' \<rparr>
         \<and> model_calls (middleware ext e (run (next_state (middleware exta ea s rqa)) later) rq) = []\<close>
proof -
  let ?s1 = "next_state (middleware exta ea s rqa)"
  have ack: "middleware exta ea s rqa =
           \<lparr> next_state = \<lparr> catalog = Null,
                            client = Some (case client s of None \<Rightarrow> new_client ea | Some c \<Rightarrow> c) \<rparr>,
             reply = Responded (model_response ''Dynamic Catalog Received''),
             model_calls = [] \<rparr>"
    by (rule announcement_outcome [OF assms(1-4)])
  then have "catalog ?s1 = Null" by simp
  then have null: "catalog (run ?s1 later) = Null"
    using assms(5) by (rule run_catalog_null)
  obtain req where req: "get_prop payload ''request'' = Inr req"
    using get_prop_any_key [OF assms(8)] by blast
  have "\<not> truthy req \<or> \<not> truthy (catalog (run ?s1 later))"
    using null by simp
  from rejected_outcome [OF assms(6-11) req this, of e] ack
  show ?thesis by (simp add: ack_body no_payload_body)
qed

theorem C10_witness:
  \<open>req_method (post ''{"clientUiCapabilities":{"dynamicCatalog":null}}'') = ''POST''
   \<and> JSON_parse sample_externals (concat (chunks (post ''{"clientUiCapabilities":{"dynamicCatalog":null}}'')))
       = Inr (Obj [(''clientUiCapabilities'', Obj [(''dynamicCatalog'', Null)])])
   \<and> map_of [(''dynamicCatalog'', Null)] ''dynamicCatalog'' = Some Null
   \<and> announced (sample_externals, sample_env, post ''not json'') = None
   \<and> JSON_parse sample_externals (concat (chunks (post ''{"request":{"instructions":"hello"}}'')))
       = Inr (Obj [(''request'', Obj [(''instructions'', Str ''hello'')])])
   \<and> reply (middleware sample_externals sample_env
        (run (next_state (middleware sample_externals sample_env
                \<lparr> catalog = sample_catalog, client = None \<rparr>
                (post ''{"clientUiCapabilities":{"dynamicCatalog":null}}'')))
             [(sample_externals, sample_env, post ''not json'')])
        (post ''{"request":{"instructions":"hello"}}'')) =
           Responded \<lparr> statusCode = 400, headers = [(''Content-Type'', ''application/json'')],
                       body = ''{"error":"Invalid message - No payload or catalog"}'' \<rparr>\<close>
proof -
  let ?ann = \<open>post ''{"clientUiCapabilities":{"dynamicCatalog":null}}''\<close>
  let ?rq = \<open>post ''{"request":{"instructions":"hello"}}''\<close>
  let ?annp = "Obj [(''clientUiCapabilities'', Obj [(''dynamicCatalog'', Null)])]"
  let ?payload = "Obj [(''request'', Obj [(''instructions'', Str ''hello'')])]"
  let ?a = "(sample_externals, sample_env, post ''not json'')"
  have h1: "req_method ?ann = ''POST''" by (simp add: post_def)
  have h2: "JSON_parse sample_externals (concat (chunks ?ann)) = Inr ?annp"
    by (simp add: post_def sample_parse_announce_null)
  have h3: "get_prop ?annp ''clientUiCapabilities'' = Inr (Obj [(''dynamicCatalog'', Null)])"
    by simp
  have h4: "map_of [(''dynamicCatalog'', Null)] ''dynamicCatalog'' = Some Null" by simp
  have a: "announced ?a = None"
    by (simp add: announced_def post_def sample_externals_def sample_bodies_def)
  then have h5: "\<forall>a\<in>set [?a]. announced a = None \<or> announced a = Some Null" by simp
  have h6: "req_method ?rq = ''POST''" by (simp add: post_def)
  have h7: "JSON_parse sample_externals (concat (chunks ?rq)) = Inr ?payload"
    by (simp add: post_def sample_parse_hello)
  have h8: "get_prop ?payload ''clientUiCapabilities'' = Inr Undefined" by simp
  have h9: "\<not> truthy Undefined" by simp
  have h10: "get_prop ?payload ''userAction'' = Inr Undefined" by simp
  show ?thesis
    using C10_null_catalog_acknowledged_but_unusable [OF h1 h2 h3 h4 h5 h6 h7 h8 h9 h10 h9]
      h1 h2 h4 a h7 by blast
qed

subsection \<open>Capabilities without a catalog\<close>

text \<open>
  C9, as amended. Take a POST whose payload has a \<open>clientUiCapabilities\<close> that is an
  object without the key \<open>dynamicCatalog\<close>, or an array. The handler writes no response,
  makes no model call and leaves the catalog alone, whatever \<open>userAction\<close> and \<open>request\<close>
  hold beside it.
\<close>

theorem C9_capabilities_without_catalog_key:
  assumes "req_method rq = ''POST''"
    and "JSON_parse ext (concat (chunks rq)) = Inr payload"
    and "get_prop payload ''clientUiCapabilities'' = Inr caps"
    and "(\<exists>kvs. caps = Obj kvs \<and> ''dynamicCatalog'' \<notin> fst ` set kvs) \<or> (\<exists>xs. caps = Arr xs)"
  shows "reply (middleware ext e s rq) = Unanswered
         \<and> model_calls (middleware ext e s rq) = []
         \<and> catalog (next_state (middleware ext e s rq)) = catalog s"
proof -
  have "truthy caps" and "has_property ''dynamicCatalog'' caps = Inr False"
    using assms(4) by auto
  then have "try_block ext (case client s of None \<Rightarrow> new_client e | Some c \<Rightarrow> c)
               (resolve_model e) (catalog s) (concat (chunks rq))
             = ([], Returns (catalog s, Unanswered))"
    using assms(2,3) by (simp add: try_block_def reading_def)
  then show ?thesis
    using assms(1) by (simp add: middleware_def Let_def)
qed

theorem C9_witness:
  \<open>req_method (post ''{"clientUiCapabilities":{},"request":{"instructions":"hello"}}'') = ''POST''
   \<and> JSON_parse sample_externals
         (concat (chunks (post ''{"clientUiCapabilities":{},"request":{"instructions":"hello"}}'')))
       = Inr (Obj [(''clientUiCapabilities'', Obj []),
                   (''request'', Obj [(''instructions'', Str ''hello'')])])
   \<and> get_prop (Obj [(''clientUiCapabilities'', Obj []),
                     (''request'', Obj [(''instructions'', Str ''hello'')])]) ''clientUiCapabilities''
       = Inr (Obj [])
   \<and> ''dynamicCatalog'' \<notin> fst ` set ([] :: (string \<times> jsval) list)
   \<and> reply (middleware sample_externals sample_env \<lparr> catalog = sample_catalog, client = None \<rparr>
         (post ''{"clientUiCapabilities":{},"request":{"instructions":"hello"}}'')) = Unanswered\<close>
proof -
  let ?rq = \<open>post ''{"clientUiCapabilities":{},"request":{"instructions":"hello"}}''\<close>
  let ?payload = "Obj [(''clientUiCapabilities'', Obj []),
                       (''request'', Obj [(''instructions'', Str ''hello'')])]"
  have h1: "req_method ?rq = ''POST''" by (simp add: post_def)
  have h2: "JSON_parse sample_externals (concat (chunks ?rq)) = Inr ?payload"
    by (simp add: post_def sample_parse_caps_empty)
  have h3: "get_prop ?payload ''clientUiCapabilities'' = Inr (Obj [])" by simp
  have h4: "(\<exists>kvs. Obj [] = Obj kvs \<and> ''dynamicCatalog'' \<notin> fst ` set kvs) \<or> (\<exists>xs. Obj [] = Arr xs)"
    by simp
  show ?thesis
    using C9_capabilities_without_catalog_key [OF h1 h2 h3 h4] h1 h2 h3 by simp
qed

text \<open>
  The claim as first stated also covers a truthy \<open>clientUiCapabilities\<close> that is not an
  object, such as \<open>true\<close>. There the operator \<open>in\<close> throws, and the request is answered
  with 400.
\<close>

theorem C9_counterexample:
  \<open>JSON_parse sample_externals (concat (chunks (post ''{"clientUiCapabilities":true}'')))
       = Inr (Obj [(''clientUiCapabilities'', Bool True)])
   \<and> truthy (Bool True)
   \<and> reply (middleware sample_externals sample_env initial_state (post ''{"clientUiCapabilities":true}''))
       \<noteq> Unanswered
   \<and> reply (middleware sample_externals sample_env initial_state (post ''{"clientUiCapabilities":true}''))
       = Responded \<lparr> statusCode = 400, headers = [(''Content-Type'', ''application/json'')],
           body = ''{"error":"Invalid message - TypeError: Cannot use 'in' operator to search for 'dynamicCatalog' in true"}'' \<rparr>\<close>
  by (simp add: middleware_def Let_def try_block_def reading_def post_def sample_parse_caps_true
        initial_state_def error_body error_toString_def QuoteJSONString_def quote_char_def)

subsection \<open>Credentials, client and model name\<close>

text \<open>
  In the three statements below a variable of the environment is set when it is defined
  and not the empty string: this is what the tests \<open>||\<close> and \<open>!\<close> of the module
  distinguish.
\<close>

text \<open>
  C8. \<open>plugin()\<close> throws exactly when neither \<open>OPENAI_API_KEY\<close> nor \<open>GEMINI_API_KEY\<close>
  is set when it is called; otherwise it returns the plugin object, through which alone
  the middleware is mounted. The failure belongs to construction: a request that finds no
  credential in the environment does not fail, the client is made with the empty key.
\<close>

theorem C8_plugin_requires_credential:
  "((\<exists>err. plugin e = Inl err) \<longleftrightarrow>
      (\<not> is_set (OPENAI_API_KEY e) \<and> \<not> is_set (GEMINI_API_KEY e)))
   \<and> (\<not> is_set (OPENAI_API_KEY e) \<and> \<not> is_set (GEMINI_API_KEY e)
        \<longrightarrow> plugin e = Inl (Error NO_API_KEY_MESSAGE))
   \<and> (is_set (OPENAI_API_KEY e) \<or> is_set (GEMINI_API_KEY e)
        \<longrightarrow> plugin e = Inr \<lparr> plugin_name = ''custom-ai-handler'', mount_path = ''/a2ui'' \<rparr>)
   \<and> (\<not> is_set (OPENAI_API_KEY e') \<and> \<not> is_set (GEMINI_API_KEY e')
        \<longrightarrow> client (next_state (middleware ext e' initial_state rq))
              = Some \<lparr> apiKey = [], baseURL = or_else (OPENAI_BASE_URL e') None \<rparr>)"
proof -
  let ?none = "\<not> is_set (OPENAI_API_KEY e) \<and> \<not> is_set (GEMINI_API_KEY e)"
  have key: "is_set (or_else (OPENAI_API_KEY e) (GEMINI_API_KEY e)) \<longleftrightarrow> \<not> ?none"
    by (auto simp: or_else_def)
  have throws: "?none \<longrightarrow> plugin e = Inl (Error NO_API_KEY_MESSAGE)"
    using key by (simp add: plugin_def Let_def)
  have returns: "\<not> ?none \<longrightarrow>
      plugin e = Inr \<lparr> plugin_name = ''custom-ai-handler'', mount_path = ''/a2ui'' \<rparr>"
    using key by (simp add: plugin_def Let_def)
  have iff: "(\<exists>err. plugin e = Inl err) \<longleftrightarrow> ?none"
    using throws returns by (cases "?none") auto
  have request: "\<not> is_set (OPENAI_API_KEY e') \<and> \<not> is_set (GEMINI_API_KEY e')
        \<longrightarrow> client (next_state (middleware ext e' initial_state rq))
              = Some \<lparr> apiKey = [], baseURL = or_else (OPENAI_BASE_URL e') None \<rparr>"
    by (auto simp: middleware_client initial_state_def new_client_def or_else_def)
  from iff throws returns request show ?thesis by blast
qed

theorem C8_witness:
  "\<not> is_set (OPENAI_API_KEY \<lparr> OPENAI_API_KEY = None, GEMINI_API_KEY = None,
                                OPENAI_BASE_URL = None, AI_MODEL = None \<rparr>)
   \<and> plugin \<lparr> OPENAI_API_KEY = None, GEMINI_API_KEY = None,
               OPENAI_BASE_URL = None, AI_MODEL = None \<rparr> = Inl (Error NO_API_KEY_MESSAGE)
   \<and> is_set (GEMINI_API_KEY legacy_env)
   \<and> plugin legacy_env = Inr \<lparr> plugin_name = ''custom-ai-handler'', mount_path = ''/a2ui'' \<rparr>"
  using C8_plugin_requires_credential
          [of "\<lparr> OPENAI_API_KEY = None, GEMINI_API_KEY = None, OPENAI_BASE_URL = None, AI_MODEL = None \<rparr>"]
        C8_plugin_requires_credential [of legacy_env]
  by (simp add: legacy_env_def)

text \<open>
  C7. The model name is \<open>AI_MODEL\<close> when that is set; otherwise \<open>gemini-2.5-flash\<close>
  when \<open>GEMINI_API_KEY\<close> is set and \<open>OPENAI_API_KEY\<close> is not; otherwise \<open>gpt-4o\<close>.
  Every model call of a request carries the name resolved for that request.
\<close>

theorem C7_model_name_resolution:
  "(is_set (AI_MODEL e) \<longrightarrow> AI_MODEL e = Some (resolve_model e))
   \<and> (\<not> is_set (AI_MODEL e) \<and> is_set (GEMINI_API_KEY e) \<and> \<not> is_set (OPENAI_API_KEY e)
        \<longrightarrow> resolve_model e = ''gemini-2.5-flash'')
   \<and> (\<not> is_set (AI_MODEL e) \<and> \<not> (is_set (GEMINI_API_KEY e) \<and> \<not> is_set (OPENAI_API_KEY e))
        \<longrightarrow> resolve_model e = ''gpt-4o'')
   \<and> (\<forall>call \<in> set (model_calls (middleware ext e s rq)). model (snd call) = resolve_model e)"
proof -
  have "\<forall>call \<in> set (model_calls (middleware ext e s rq)). model (snd call) = resolve_model e"
    using middleware_calls [of _ _ ext e s rq] by auto
  moreover have "is_set (AI_MODEL e) \<longrightarrow> AI_MODEL e = Some (resolve_model e)"
    by (cases "AI_MODEL e") (auto simp: resolve_model_def or_else_def)
  ultimately show ?thesis
    by (auto simp: resolve_model_def or_else_def DEFAULT_GEMINI_MODEL_def DEFAULT_OPENAI_MODEL_def)
qed

theorem C7_witness:
  \<open>\<not> is_set (AI_MODEL sample_env)
   \<and> \<not> (is_set (GEMINI_API_KEY sample_env) \<and> \<not> is_set (OPENAI_API_KEY sample_env))
   \<and> resolve_model sample_env = ''gpt-4o''
   \<and> \<not> is_set (AI_MODEL legacy_env)
   \<and> is_set (GEMINI_API_KEY legacy_env) \<and> \<not> is_set (OPENAI_API_KEY legacy_env)
   \<and> resolve_model legacy_env = ''gemini-2.5-flash''
   \<and> is_set (AI_MODEL (legacy_env \<lparr> AI_MODEL := Some ''my-model'' \<rparr>))
   \<and> resolve_model (legacy_env \<lparr> AI_MODEL := Some ''my-model'' \<rparr>) = ''my-model''
   \<and> map (\<lambda>call. model (snd call))
        (model_calls (middleware sample_externals sample_env
           \<lparr> catalog = sample_catalog, client = None \<rparr>
           (post ''{"request":{"instructions":"hello"}}''))) = [''gpt-4o'']\<close>
proof -
  let ?s = "\<lparr> catalog = sample_catalog, client = None \<rparr>"
  let ?rq = \<open>post ''{"request":{"instructions":"hello"}}''\<close>
  let ?own = "legacy_env \<lparr> AI_MODEL := Some ''my-model'' \<rparr>"
  have a: "\<not> is_set (AI_MODEL sample_env)"
    "\<not> (is_set (GEMINI_API_KEY sample_env) \<and> \<not> is_set (OPENAI_API_KEY sample_env))"
    by (simp_all add: sample_env_def)
  have b: "\<not> is_set (AI_MODEL legacy_env)" "is_set (GEMINI_API_KEY legacy_env)"
    "\<not> is_set (OPENAI_API_KEY legacy_env)"
    by (simp_all add: legacy_env_def)
  have c: "is_set (AI_MODEL ?own)" "AI_MODEL ?own = Some ''my-model''"
    by simp_all
  have ra: "resolve_model sample_env = ''gpt-4o''"
    using C7_model_name_resolution [of sample_env sample_externals ?s ?rq] a by blast
  have rb: "resolve_model legacy_env = ''gemini-2.5-flash''"
    using C7_model_name_resolution [of legacy_env sample_externals ?s ?rq] b by blast
  have rc: "resolve_model ?own = ''my-model''"
    using C7_model_name_resolution [of ?own sample_externals ?s ?rq] c by simp
  have "\<forall>call \<in> set (model_calls (middleware sample_externals sample_env ?s ?rq)).
          model (snd call) = resolve_model sample_env"
    using C7_model_name_resolution [of sample_env sample_externals ?s ?rq] by blast
  then have m: "map (\<lambda>call. model (snd call))
        (model_calls (middleware sample_externals sample_env ?s ?rq)) = [''gpt-4o'']"
    using ra by (simp add: sample_generation_calls)
  from a b c(1) ra rb rc m show ?thesis by blast
qed

text \<open>
  C6, as amended. The client is made by the first request that reaches the middleware,
  whatever its method and payload, and is kept from then on: after any request the
  variable holds the client it held before, or a new one when it held none; every model
  call goes through it. The new client gets \<open>OPENAI_API_KEY\<close> when set, else
  \<open>GEMINI_API_KEY\<close> when set, else the empty string; its base URL is \<open>OPENAI_BASE_URL\<close>
  when set, else Google's endpoint exactly when \<open>GEMINI_API_KEY\<close> is set and
  \<open>OPENAI_API_KEY\<close> is not, else none.
\<close>

theorem C6_client_construction:
  "client (next_state (middleware ext e s rq))
     = Some (case client s of None \<Rightarrow> new_client e | Some c \<Rightarrow> c)
   \<and> client (run initial_state []) = None
   \<and> client (run initial_state ((ext, e, rq) # rest)) = Some (new_client e)
   \<and> (\<forall>call \<in> set (model_calls (middleware ext e s rq)).
         fst call = (case client s of None \<Rightarrow> new_client e | Some c \<Rightarrow> c))
   \<and> (is_set (OPENAI_API_KEY e) \<longrightarrow> OPENAI_API_KEY e = Some (apiKey (new_client e)))
   \<and> (\<not> is_set (OPENAI_API_KEY e) \<and> is_set (GEMINI_API_KEY e)
        \<longrightarrow> GEMINI_API_KEY e = Some (apiKey (new_client e)))
   \<and> (\<not> is_set (OPENAI_API_KEY e) \<and> \<not> is_set (GEMINI_API_KEY e) \<longrightarrow> apiKey (new_client e) = [])
   \<and> baseURL (new_client e) =
         (if is_set (OPENAI_BASE_URL e) then OPENAI_BASE_URL e
          else if is_set (GEMINI_API_KEY e) \<and> \<not> is_set (OPENAI_API_KEY e)
            then Some ''https://generativelanguage.googleapis.com/v1beta/openai/''
          else None)"
proof -
  have 1: "client (next_state (middleware ext e s rq))
     = Some (case client s of None \<Rightarrow> new_client e | Some c \<Rightarrow> c)"
    by (rule middleware_client)
  have 2: "client (run initial_state []) = None"
    by (simp add: initial_state_def)
  have "client (next_state (middleware ext e initial_state rq)) = Some (new_client e)"
    by (simp add: middleware_client initial_state_def)
  then have 3: "client (run initial_state ((ext, e, rq) # rest)) = Some (new_client e)"
    by (simp add: run_client)
  have 4: "\<forall>call \<in> set (model_calls (middleware ext e s rq)).
         fst call = (case client s of None \<Rightarrow> new_client e | Some c \<Rightarrow> c)"
    using middleware_calls [of _ _ ext e s rq] by auto
  have 5: "is_set (OPENAI_API_KEY e) \<longrightarrow> OPENAI_API_KEY e = Some (apiKey (new_client e))"
    by (cases "OPENAI_API_KEY e") (auto simp: new_client_def or_else_def)
  have 6: "\<not> is_set (OPENAI_API_KEY e) \<and> is_set (GEMINI_API_KEY e)
        \<longrightarrow> GEMINI_API_KEY e = Some (apiKey (new_client e))"
    by (cases "GEMINI_API_KEY e") (auto simp: new_client_def or_else_def)
  have 7: "\<not> is_set (OPENAI_API_KEY e) \<and> \<not> is_set (GEMINI_API_KEY e) \<longrightarrow> apiKey (new_client e) = []"
    by (auto simp: new_client_def or_else_def)
  have 8: "baseURL (new_client e) =
         (if is_set (OPENAI_BASE_URL e) then OPENAI_BASE_URL e
          else if is_set (GEMINI_API_KEY e) \<and> \<not> is_set (OPENAI_API_KEY e)
            then Some ''https://generativelanguage.googleapis.com/v1beta/openai/''
          else None)"
    by (simp add: new_client_def or_else_def GOOGLE_OPENAI_ENDPOINT_def)
  from 1 2 3 4 5 6 7 8 show ?thesis by blast
qed

theorem C6_witness:
  \<open>model_calls (middleware sample_externals legacy_env \<lparr> catalog = sample_catalog, client = None \<rparr>
       (post ''{"request":{"instructions":"hello"}}'')) \<noteq> []
   \<and> map fst (model_calls (middleware sample_externals legacy_env
         \<lparr> catalog = sample_catalog, client = None \<rparr> (post ''{"request":{"instructions":"hello"}}'')))
       = [\<lparr> apiKey = ''g-test'',
            baseURL = Some ''https://generativelanguage.googleapis.com/v1beta/openai/'' \<rparr>]
   \<and> \<not> is_set (OPENAI_API_KEY legacy_env) \<and> is_set (GEMINI_API_KEY legacy_env)
   \<and> client (run initial_state
        [(sample_externals, legacy_env, \<lparr> req_method = ''GET'', chunks = [] \<rparr>),
         (sample_externals, sample_env, post ''{"request":{"instructions":"hello"}}'')])
       = Some \<lparr> apiKey = ''g-test'',
                baseURL = Some ''https://generativelanguage.googleapis.com/v1beta/openai/'' \<rparr>\<close>
proof -
  let ?s = "\<lparr> catalog = sample_catalog, client = None \<rparr>"
  let ?rq = \<open>post ''{"request":{"instructions":"hello"}}''\<close>
  have calls: "model_calls (middleware sample_externals legacy_env ?s ?rq) =
     [(new_client legacy_env, a2ui_params (resolve_model legacy_env) [Text [], Text ''hello''])]"
    by (simp add: handler_defs sample_defs)
  have env: "\<not> is_set (OPENAI_API_KEY legacy_env)" "is_set (GEMINI_API_KEY legacy_env)"
    "\<not> is_set (OPENAI_BASE_URL legacy_env)"
    by (simp_all add: legacy_env_def)
  have key: "GEMINI_API_KEY legacy_env = Some ''g-test''" by (simp add: legacy_env_def)
  note inst = C6_client_construction [of sample_externals legacy_env ?s ?rq
      "[(sample_externals, sample_env, ?rq)]"]
    C6_client_construction [of sample_externals legacy_env ?s "\<lparr> req_method = ''GET'', chunks = [] \<rparr>"
      "[(sample_externals, sample_env, ?rq)]"]
  from inst env key have c: "new_client legacy_env = \<lparr> apiKey = ''g-test'',
            baseURL = Some ''https://generativelanguage.googleapis.com/v1beta/openai/'' \<rparr>"
    by (cases "new_client legacy_env") simp
  from inst have "client (run initial_state
        [(sample_externals, legacy_env, \<lparr> req_method = ''GET'', chunks = [] \<rparr>),
         (sample_externals, sample_env, ?rq)]) = Some (new_client legacy_env)"
    by blast
  with c calls env show ?thesis by simp
qed

text \<open>
  The claim as first stated keeps the client unset until a generation request is
  processed. A catalog announcement, and a GET, already leave a client behind.
\<close>

theorem C6_counterexample:
  \<open>client initial_state = None
   \<and> reply (middleware sample_externals sample_env initial_state
        (post ''{"clientUiCapabilities":{"dynamicCatalog":{"components":[]}}}''))
       = Responded (model_response ''Dynamic Catalog Received'')
   \<and> model_calls (middleware sample_externals sample_env initial_state
        (post ''{"clientUiCapabilities":{"dynamicCatalog":{"components":[]}}}'')) = []
   \<and> client (next_state (middleware sample_externals sample_env initial_state
        (post ''{"clientUiCapabilities":{"dynamicCatalog":{"components":[]}}}'')))
       = Some \<lparr> apiKey = ''sk-test'', baseURL = None \<rparr>
   \<and> reply (middleware sample_externals sample_env initial_state \<lparr> req_method = ''GET'', chunks = [] \<rparr>)
       = Next
   \<and> client (next_state (middleware sample_externals sample_env initial_state
        \<lparr> req_method = ''GET'', chunks = [] \<rparr>))
       = Some \<lparr> apiKey = ''sk-test'', baseURL = None \<rparr>\<close>
  by (simp add: handler_defs sample_defs initial_state_def new_client_def or_else_def)

subsection \<open>Generation requests\<close>

text \<open>
  C2, as amended. Take a generation request (a truthy catalog is stored, \<open>request\<close> is an
  object) whose \<open>imageData\<close> is a string that starts with \<open>data:\<close> and in which
  \<open>/data:(.*);/\<close> finds no MIME type: it has no semicolon, or the expression finds no
  match or an empty group. The handler answers 400 with the body
  \<open>{"error":"Invalid message - Error: Invalid inline data"}\<close> and calls no model.
\<close>

theorem C2_invalid_inline_data:
  assumes "req_method rq = ''POST''"
    and "JSON_parse ext (concat (chunks rq)) = Inr payload"
    and "get_prop payload ''clientUiCapabilities'' = Inr caps" and "\<not> truthy caps"
    and "get_prop payload ''userAction'' = Inr userAction" and "\<not> truthy userAction"
    and "get_prop payload ''request'' = Inr req" and "truthy req" and "isObject ext req"
    and "truthy (catalog s)"
    and "get_prop req ''imageData'' = Inr (Str imageData)"
    and "take 5 imageData = ''data:''"
    and "CHR '';'' \<notin> set imageData \<or> exec_data_group imageData = None
         \<or> exec_data_group imageData = Some []"
  shows \<open>reply (middleware ext e s rq) =
           Responded \<lparr> statusCode = 400, headers = [(''Content-Type'', ''application/json'')],
                       body = ''{"error":"Invalid message - Error: Invalid inline data"}'' \<rparr>
         \<and> model_calls (middleware ext e s rq) = []\<close>
proof -
  let ?cl = "case client s of None \<Rightarrow> new_client e | Some c \<Rightarrow> c"
  have "exec_data_group imageData = None \<or> exec_data_group imageData = Some []"
    using assms(13) exec_needs_semicolon by blast
  then have "generation ext ?cl (resolve_model e) (catalog s) req
             = ([], Throws (Error ''Invalid inline data''))"
    by (rule generation_invalid_inline_data [OF assms(9) assms(11) assms(12)])
  then have "try_block ext ?cl (resolve_model e) (catalog s) (concat (chunks rq))
             = ([], Throws (Error ''Invalid inline data''))"
    by (simp add: try_block_generation [OF assms(2-8) assms(10)])
  then show ?thesis
    using assms(1) by (simp add: middleware_post invalid_inline_data_body del: String_of_exn.simps)
qed


theorem C2_witness:
  \<open>req_method (post ''{"request":{"instructions":"hello","imageData":"data:image/png,iVBORw0KGgo="}}'') = ''POST''
   \<and> JSON_parse sample_externals (concat (chunks
         (post ''{"request":{"instructions":"hello","imageData":"data:image/png,iVBORw0KGgo="}}'')))
       = Inr (Obj [(''request'', Obj [(''instructions'', Str ''hello''),
                                      (''imageData'', Str ''data:image/png,iVBORw0KGgo='')])])
   \<and> isObject sample_externals (Obj [(''instructions'', Str ''hello''),
                                      (''imageData'', Str ''data:image/png,iVBORw0KGgo='')])
   \<and> truthy sample_catalog
   \<and> take 5 ''data:image/png,iVBORw0KGgo='' = ''data:''
   \<and> CHR '';'' \<notin> set ''data:image/png,iVBORw0KGgo=''
   \<and> reply (middleware sample_externals sample_env \<lparr> catalog = sample_catalog, client = None \<rparr>
         (post ''{"request":{"instructions":"hello","imageData":"data:image/png,iVBORw0KGgo="}}'')) =
           Responded \<lparr> statusCode = 400, headers = [(''Content-Type'', ''application/json'')],
                       body = ''{"error":"Invalid message - Error: Invalid inline data"}'' \<rparr>\<close>
proof -
  let ?rq = \<open>post ''{"request":{"instructions":"hello","imageData":"data:image/png,iVBORw0KGgo="}}''\<close>
  let ?req = "Obj [(''instructions'', Str ''hello''), (''imageData'', Str ''data:image/png,iVBORw0KGgo='')]"
  let ?payload = "Obj [(''request'', ?req)]"
  let ?s = "\<lparr> catalog = sample_catalog, client = None \<rparr>"
  have h1: "req_method ?rq = ''POST''" by (simp add: post_def)
  have h2: "JSON_parse sample_externals (concat (chunks ?rq)) = Inr ?payload"
    by (simp add: post_def sample_defs)
  have h3: "get_prop ?payload ''clientUiCapabilities'' = Inr Undefined" by simp
  have h4: "\<not> truthy Undefined" by simp
  have h5: "get_prop ?payload ''userAction'' = Inr Undefined" by simp
  have h6: "get_prop ?payload ''request'' = Inr ?req" by simp
  have h7: "truthy ?req" by simp
  have h8: "isObject sample_externals ?req" by (simp add: sample_externals_def)
  have h9: "truthy (catalog ?s)" by (simp add: sample_catalog_def)
  have h10: "get_prop ?req ''imageData'' = Inr (Str ''data:image/png,iVBORw0KGgo='')" by simp
  have h11: "take 5 ''data:image/png,iVBORw0KGgo='' = ''data:''" by simp
  have h12: "CHR '';'' \<notin> set ''data:image/png,iVBORw0KGgo=''" by simp
  then have h13: "CHR '';'' \<notin> set ''data:image/png,iVBORw0KGgo=''
      \<or> exec_data_group ''data:image/png,iVBORw0KGgo='' = None
      \<or> exec_data_group ''data:image/png,iVBORw0KGgo='' = Some []" by (rule disjI1)
  have h9': "truthy sample_catalog" using h9 by simp
  show ?thesis
    using C2_invalid_inline_data [OF h1 h2 h3 h4 h5 h4 h6 h7 h8 h9 h10 h11 h13, of sample_env]
      h1 h2 h8 h9' h11 h12 by blast
qed

text \<open>
  The claim as first stated expects this error for every \<open>imageData\<close> that is not of the
  shape \<open>data:<mime>;base64,<payload>\<close>. A string that does not start with \<open>data:\<close>
  is not looked at: the request goes on to the UI-generation call and is answered 200.
\<close>

theorem C2_counterexample:
  \<open>JSON_parse sample_externals (concat (chunks
         (post ''{"request":{"instructions":"hello","imageData":"https://example.com/a.png"}}'')))
       = Inr (Obj [(''request'', Obj [(''instructions'', Str ''hello''),
                                      (''imageData'', Str ''https://example.com/a.png'')])])
   \<and> isObject sample_externals (Obj [(''instructions'', Str ''hello''),
                                      (''imageData'', Str ''https://example.com/a.png'')])
   \<and> truthy sample_catalog
   \<and> take 5 ''https://example.com/a.png'' \<noteq> ''data:''
   \<and> reply (middleware sample_externals sample_env \<lparr> catalog = sample_catalog, client = None \<rparr>
         (post ''{"request":{"instructions":"hello","imageData":"https://example.com/a.png"}}'')) =
           Responded \<lparr> statusCode = 200, headers = [(''Content-Type'', ''application/json'')],
                       body = ''{"role":"model","parts":[{"text":"[]"}]}'' \<rparr>\<close>
  by (simp add: handler_defs sample_defs model_body QuoteJSONString_def quote_char_def)




subsection \<open>Errors\<close>

text \<open>
  C5. Whatever is thrown while a POST body is handled is caught by the one \<open>catch\<close> of
  the handler and answered 400 with the body \<open>{"error":"Invalid message - <detail>"}\<close>,
  the detail being the text of what was thrown; the calls made up to then stay as they
  are and the catalog is untouched. This holds for a body \<open>JSON.parse\<close> rejects, for a
  \<open>request\<close> that is present but no object, for inline data without a MIME type, and for
  a call the provider rejects. Nothing is tried again: a rejected call is the last one
  made, no call occurs twice among the calls of a request, and there are at most two. No
  response carries a status other than 200 or 400. A call here is one invocation of
  \<open>client.chat.completions.create\<close> by the handler.
\<close>

theorem C5_exceptions_answered_400:
  fixes ext e s rq
  defines "cl \<equiv> (case client s of None \<Rightarrow> new_client e | Some c \<Rightarrow> c)"
    and "mdl \<equiv> resolve_model e"
    and "out \<equiv> middleware ext e s rq"
  assumes "req_method rq = ''POST''"
  shows \<open>(try_block ext cl mdl (catalog s) (concat (chunks rq)) = (cs, Throws err) \<longrightarrow>
            reply out =
              Responded \<lparr> statusCode = 400, headers = [(''Content-Type'', ''application/json'')],
                body = ''{"error":'' @ QuoteJSONString (''Invalid message - '' @ String_of_exn err) @ ''}'' \<rparr>
            \<and> model_calls out = cs
            \<and> catalog (next_state out) = catalog s)
      \<and> (JSON_parse ext (concat (chunks rq)) = Inl parseError \<longrightarrow>
            reply out =
              Responded \<lparr> statusCode = 400, headers = [(''Content-Type'', ''application/json'')],
                body = ''{"error":'' @ QuoteJSONString (''Invalid message - '' @ String_of_exn parseError)
                         @ ''}'' \<rparr>
            \<and> model_calls out = [])
      \<and> (JSON_parse ext (concat (chunks rq)) = Inr payload
           \<and> get_prop payload ''clientUiCapabilities'' = Inr caps \<and> \<not> truthy caps
           \<and> get_prop payload ''userAction'' = Inr userAction \<and> \<not> truthy userAction
           \<and> get_prop payload ''request'' = Inr req \<and> truthy req \<and> truthy (catalog s) \<longrightarrow>
            (\<not> isObject ext req \<longrightarrow>
               reply out =
                 Responded \<lparr> statusCode = 400, headers = [(''Content-Type'', ''application/json'')],
                   body = ''{"error":"Invalid message - Error: Expected request to be an object"}'' \<rparr>
               \<and> model_calls out = [])
          \<and> (isObject ext req \<and> get_prop req ''imageData'' = Inr (Str imageData)
               \<and> take 5 imageData = ''data:''
               \<and> (exec_data_group imageData = None \<or> exec_data_group imageData = Some []) \<longrightarrow>
               reply out =
                 Responded \<lparr> statusCode = 400, headers = [(''Content-Type'', ''application/json'')],
                   body = ''{"error":"Invalid message - Error: Invalid inline data"}'' \<rparr>
               \<and> model_calls out = []))
      \<and> ((c, p) \<in> set (model_calls out) \<and> chat_completions_create ext c p = Rejected providerError \<longrightarrow>
            reply out =
              Responded \<lparr> statusCode = 400, headers = [(''Content-Type'', ''application/json'')],
                body = ''{"error":'' @ QuoteJSONString (''Invalid message - '' @ String_of_exn providerError)
                         @ ''}'' \<rparr>
            \<and> last (model_calls out) = (c, p))
      \<and> (reply out = Responded r \<longrightarrow> statusCode r = 200 \<or> statusCode r = 400)
      \<and> length (model_calls out) \<le> 2
      \<and> distinct (model_calls out)\<close>
proof -
  have thrown: "reply out = Responded (error_response (String_of_exn x)) \<and> model_calls out = ys
                \<and> catalog (next_state out) = catalog s"
    if "try_block ext cl mdl (catalog s) (concat (chunks rq)) = (ys, Throws x)" for ys x
    using thrown_outcome [OF assms(4) that [unfolded cl_def mdl_def]]
    unfolding out_def by simp
  have 1: \<open>try_block ext cl mdl (catalog s) (concat (chunks rq)) = (cs, Throws err) \<longrightarrow>
            reply out =
              Responded \<lparr> statusCode = 400, headers = [(''Content-Type'', ''application/json'')],
                body = ''{"error":'' @ QuoteJSONString (''Invalid message - '' @ String_of_exn err) @ ''}'' \<rparr>
            \<and> model_calls out = cs \<and> catalog (next_state out) = catalog s\<close>
    using thrown [of cs err] unfolding error_body by blast
  have 2: \<open>JSON_parse ext (concat (chunks rq)) = Inl parseError \<longrightarrow>
            reply out =
              Responded \<lparr> statusCode = 400, headers = [(''Content-Type'', ''application/json'')],
                body = ''{"error":'' @ QuoteJSONString (''Invalid message - '' @ String_of_exn parseError)
                         @ ''}'' \<rparr>
            \<and> model_calls out = []\<close>
    using thrown [of "[]" parseError] try_block_parse_error [of ext _ parseError cl mdl "catalog s"]
    unfolding error_body by blast
  have 3: \<open>reply out =
              Responded \<lparr> statusCode = 400, headers = [(''Content-Type'', ''application/json'')],
                body = ''{"error":"Invalid message - Error: Expected request to be an object"}'' \<rparr>
           \<and> model_calls out = []\<close>
    if "JSON_parse ext (concat (chunks rq)) = Inr payload"
      "get_prop payload ''clientUiCapabilities'' = Inr caps" "\<not> truthy caps"
      "get_prop payload ''userAction'' = Inr userAction" "\<not> truthy userAction"
      "get_prop payload ''request'' = Inr req" "truthy req" "truthy (catalog s)"
      "\<not> isObject ext req"
  proof -
    have "try_block ext cl mdl (catalog s) (concat (chunks rq))
            = ([], Throws (Error ''Expected request to be an object''))"
      using that(9) by (simp add: try_block_generation [OF that(1-8)] generation_not_object)
    from thrown [OF this] show ?thesis unfolding not_object_body by blast
  qed
  have 4: \<open>reply out =
              Responded \<lparr> statusCode = 400, headers = [(''Content-Type'', ''application/json'')],
                body = ''{"error":"Invalid message - Error: Invalid inline data"}'' \<rparr>
           \<and> model_calls out = []\<close>
    if "JSON_parse ext (concat (chunks rq)) = Inr payload"
      "get_prop payload ''clientUiCapabilities'' = Inr caps" "\<not> truthy caps"
      "get_prop payload ''userAction'' = Inr userAction" "\<not> truthy userAction"
      "get_prop payload ''request'' = Inr req" "truthy req" "truthy (catalog s)"
      "isObject ext req" "get_prop req ''imageData'' = Inr (Str imageData)"
      "take 5 imageData = ''data:''"
      "exec_data_group imageData = None \<or> exec_data_group imageData = Some []"
  proof -
    have "try_block ext cl mdl (catalog s) (concat (chunks rq))
            = ([], Throws (Error ''Invalid inline data''))"
      by (simp add: try_block_generation [OF that(1-8)]
            generation_invalid_inline_data [OF that(9-12)])
    from thrown [OF this] show ?thesis unfolding invalid_inline_data_body by blast
  qed
  have 5: \<open>(c, p) \<in> set (model_calls out) \<and> chat_completions_create ext c p = Rejected providerError \<longrightarrow>
            reply out =
              Responded \<lparr> statusCode = 400, headers = [(''Content-Type'', ''application/json'')],
                body = ''{"error":'' @ QuoteJSONString (''Invalid message - '' @ String_of_exn providerError)
                         @ ''}'' \<rparr>
            \<and> last (model_calls out) = (c, p)\<close>
    using middleware_rejected_call [of c p ext e s rq providerError]
    unfolding out_def error_body by blast
  have 6: "reply out = Responded r \<longrightarrow> statusCode r = 200 \<or> statusCode r = 400"
    unfolding out_def using middleware_status by blast
  have 7: "length (model_calls out) \<le> 2"
    unfolding out_def by (rule middleware_calls_length)
  from 3 4 have 34: \<open>JSON_parse ext (concat (chunks rq)) = Inr payload
           \<and> get_prop payload ''clientUiCapabilities'' = Inr caps \<and> \<not> truthy caps
           \<and> get_prop payload ''userAction'' = Inr userAction \<and> \<not> truthy userAction
           \<and> get_prop payload ''request'' = Inr req \<and> truthy req \<and> truthy (catalog s) \<longrightarrow>
            (\<not> isObject ext req \<longrightarrow>
               reply out =
                 Responded \<lparr> statusCode = 400, headers = [(''Content-Type'', ''application/json'')],
                   body = ''{"error":"Invalid message - Error: Expected request to be an object"}'' \<rparr>
               \<and> model_calls out = [])
          \<and> (isObject ext req \<and> get_prop req ''imageData'' = Inr (Str imageData)
               \<and> take 5 imageData = ''data:''
               \<and> (exec_data_group imageData = None \<or> exec_data_group imageData = Some []) \<longrightarrow>
               reply out =
                 Responded \<lparr> statusCode = 400, headers = [(''Content-Type'', ''application/json'')],
                   body = ''{"error":"Invalid message - Error: Invalid inline data"}'' \<rparr>
               \<and> model_calls out = [])\<close>
    by blast
  have 8: "distinct (model_calls out)"
    unfolding out_def by (rule middleware_calls_distinct)
  from 1 2 34 5 6 7 8 show ?thesis by (intro conjI)
qed

theorem C5_witness:
  \<open>req_method (post ''not json'') = ''POST''
   \<and> JSON_parse sample_externals (concat (chunks (post ''not json'')))
       = Inl (SyntaxError ''Unexpected token'')
   \<and> reply (middleware sample_externals sample_env initial_state (post ''not json''))
       = Responded \<lparr> statusCode = 400, headers = [(''Content-Type'', ''application/json'')],
                     body = ''{"error":"Invalid message - SyntaxError: Unexpected token"}'' \<rparr>
   \<and> JSON_parse sample_externals (concat (chunks (post ''{"request":"hello"}'')))
       = Inr (Obj [(''request'', Str ''hello'')])
   \<and> \<not> isObject sample_externals (Str ''hello'')
   \<and> reply (middleware sample_externals sample_env \<lparr> catalog = sample_catalog, client = None \<rparr>
         (post ''{"request":"hello"}''))
       = Responded \<lparr> statusCode = 400, headers = [(''Content-Type'', ''application/json'')],
                     body = ''{"error":"Invalid message - Error: Expected request to be an object"}'' \<rparr>
   \<and> chat_completions_create failing_externals (new_client sample_env)
         (a2ui_params (resolve_model sample_env) [Text [], Text ''hello''])
       = Rejected (Rejection ''Error: Connection error.'')
   \<and> model_calls (middleware failing_externals sample_env \<lparr> catalog = sample_catalog, client = None \<rparr>
         (post ''{"request":{"instructions":"hello"}}''))
       = [(new_client sample_env, a2ui_params (resolve_model sample_env) [Text [], Text ''hello''])]
   \<and> reply (middleware failing_externals sample_env \<lparr> catalog = sample_catalog, client = None \<rparr>
         (post ''{"request":{"instructions":"hello"}}''))
       = Responded \<lparr> statusCode = 400, headers = [(''Content-Type'', ''application/json'')],
                     body = ''{"error":"Invalid message - Error: Connection error."}'' \<rparr>\<close>
proof -
  let ?s = "\<lparr> catalog = sample_catalog, client = None \<rparr>"
  let ?bad = \<open>post ''not json''\<close>
  let ?str = \<open>post ''{"request":"hello"}''\<close>
  let ?gen = \<open>post ''{"request":{"instructions":"hello"}}''\<close>
  let ?call = "(new_client sample_env, a2ui_params (resolve_model sample_env) [Text [], Text ''hello''])"
  have post: "req_method ?bad = ''POST''" "req_method ?str = ''POST''" "req_method ?gen = ''POST''"
    by (simp_all add: post_def)
  have a1: "JSON_parse sample_externals (concat (chunks ?bad)) = Inl (SyntaxError ''Unexpected token'')"
    by (simp add: post_def sample_defs)
  have a: \<open>reply (middleware sample_externals sample_env initial_state ?bad)
       = Responded \<lparr> statusCode = 400, headers = [(''Content-Type'', ''application/json'')],
                     body = ''{"error":"Invalid message - SyntaxError: Unexpected token"}'' \<rparr>\<close>
    using C5_exceptions_answered_400 [OF post(1), where ext = sample_externals and e = sample_env
        and s = initial_state and parseError = "SyntaxError ''Unexpected token''"] a1
    by (simp add: QuoteJSONString_def quote_char_def error_toString_def)
  have b1: "JSON_parse sample_externals (concat (chunks ?str)) = Inr (Obj [(''request'', Str ''hello'')])"
    by (simp add: post_def sample_defs)
  have b2: "\<not> isObject sample_externals (Str ''hello'')" by (simp add: sample_externals_def)
  have b3: "truthy (catalog ?s)" by (simp add: sample_catalog_def)
  have b: \<open>reply (middleware sample_externals sample_env ?s ?str)
       = Responded \<lparr> statusCode = 400, headers = [(''Content-Type'', ''application/json'')],
                     body = ''{"error":"Invalid message - Error: Expected request to be an object"}'' \<rparr>\<close>
    using C5_exceptions_answered_400 [OF post(2), where ext = sample_externals and e = sample_env
        and s = ?s and payload = "Obj [(''request'', Str ''hello'')]" and caps = Undefined
        and userAction = Undefined and req = "Str ''hello''"] b1 b2 b3
    by simp
  have c1: "chat_completions_create failing_externals (fst ?call) (snd ?call)
       = Rejected (Rejection ''Error: Connection error.'')"
    by (simp add: failing_externals_def)
  have c2: "model_calls (middleware failing_externals sample_env ?s ?gen) = [?call]"
    by (rule failing_generation_calls)
  then have c3: "(fst ?call, snd ?call) \<in> set (model_calls (middleware failing_externals sample_env ?s ?gen))"
    by simp
  have c: \<open>reply (middleware failing_externals sample_env ?s ?gen)
       = Responded \<lparr> statusCode = 400, headers = [(''Content-Type'', ''application/json'')],
                     body = ''{"error":"Invalid message - Error: Connection error."}'' \<rparr>\<close>
    using C5_exceptions_answered_400 [OF post(3), where ext = failing_externals and e = sample_env
        and s = ?s and c = "fst ?call" and p = "snd ?call"
        and providerError = "Rejection ''Error: Connection error.''"] c1 c3
    by (simp add: QuoteJSONString_def quote_char_def)
  from c1 have c1': "chat_completions_create failing_externals (new_client sample_env)
         (a2ui_params (resolve_model sample_env) [Text [], Text ''hello''])
       = Rejected (Rejection ''Error: Connection error.'')" by simp
  from post(1) a1 a b1 b2 b c1' c2 c show ?thesis by blast
qed

end
